theory Spec2Isabelle
  imports Complex_Main "HOL-Library.AList"
begin

section \<open>Numbers, vectors and the objects of the two engines\<close>

text \<open>
  JavaScript numbers are IEEE 754 doubles. They are modelled as the real numbers they
  denote, and every arithmetic operation rounds its exact result to the nearest double,
  ties to the even significand: \<open>fl64\<close>, with 53 bits of significand and the subnormal
  numbers below \<open>2 powr - 1022\<close>. Negation and comparison are exact. Overflow to an
  infinity, NaN and the sign of zero are outside the model. A value that JavaScript would
  read as \<open>undefined\<close> (a geometry parameter the geometry does not have) is \<open>None\<close>, and
  arithmetic on it stays \<open>None\<close>.
\<close>

definition round_half_even :: "real \<Rightarrow> int" where
  "round_half_even y =
     (let f = \<lfloor>y\<rfloor>
      in if y - of_int f < 1 / 2 then f
         else if y - of_int f > 1 / 2 then f + 1
         else if even f then f else f + 1)"

definition fl64 :: "real \<Rightarrow> real" where
  \<comment> \<open>\<open>e\<close> is the exponent of \<open>x\<close>, \<open>ulp\<close> the distance of the doubles around \<open>x\<close>\<close>
  "fl64 x =
     (if x = 0 then 0
      else (let e = max \<lfloor>log 2 \<bar>x\<bar>\<rfloor> (- 1022);
                ulp = 2 powr of_int (e - 52)
            in ulp * of_int (round_half_even (x / ulp))))"

datatype vec3 = Vec3 (vx: real) (vy: real) (vz: real)

datatype quat = Quat (qx: real) (qy: real) (qz: real) (qw: real)

definition vsub :: "vec3 \<Rightarrow> vec3 \<Rightarrow> vec3" where
  \<comment> \<open>Vector3.sub\<close>
  "vsub a b = Vec3 (fl64 (vx a - vx b)) (fl64 (vy a - vy b)) (fl64 (vz a - vz b))"

definition vdot :: "vec3 \<Rightarrow> vec3 \<Rightarrow> real" where
  \<comment> \<open>Vector3.dot: \<open>this.x * v.x + this.y * v.y + this.z * v.z\<close>\<close>
  "vdot a b = fl64 (fl64 (fl64 (vx a * vx b) + fl64 (vy a * vy b)) + fl64 (vz a * vz b))"

definition addScaledVector :: "vec3 \<Rightarrow> vec3 \<Rightarrow> real \<Rightarrow> vec3" where
  \<comment> \<open>Vector3.addScaledVector: \<open>this.x += v.x * s\<close> and so on\<close>
  "addScaledVector a d t =
     Vec3 (fl64 (vx a + fl64 (vx d * t))) (fl64 (vy a + fl64 (vy d * t)))
       (fl64 (vz a + fl64 (vz d * t)))"

definition set_y :: "vec3 \<Rightarrow> real \<Rightarrow> vec3" where
  \<comment> \<open>the assignment \<open>v.y = c\<close>\<close>
  "set_y v c = Vec3 (vx v) c (vz v)"

text \<open>
  Meshes and bodies are JavaScript objects compared by identity: they are references into
  two heaps. A reference a program holds always denotes an object, so the heaps are total.
\<close>

type_synonym mesh_ref = nat
type_synonym body_ref = nat

text \<open>
  The geometries of the renderer. The first four carry a \<open>parameters\<close> object: the box
  its width, height and depth, the sphere its radius, the cylinder its top radius, bottom
  radius and height, the extruded shape other things. A plain \<open>BufferGeometry\<close> has no
  \<open>parameters\<close> object at all, and reading a parameter of it throws.
\<close>

datatype geometry =
    BoxGeometry real real real
  | SphereGeometry real
  | CylinderGeometry real real real
  | ExtrudeGeometry
  | BufferGeometry

datatype js_error = TypeError

fun has_parameters :: "geometry \<Rightarrow> bool" where
  "has_parameters BufferGeometry = False"
| "has_parameters _ = True"

text \<open>
  \<open>geometry.parameters.<name>\<close> of a geometry that has \<open>parameters\<close>: the parameter,
  or \<open>undefined\<close>.
\<close>

fun param_width :: "geometry \<Rightarrow> real option" where
  "param_width (BoxGeometry w h d) = Some w"
| "param_width _ = None"

fun param_height :: "geometry \<Rightarrow> real option" where
  "param_height (BoxGeometry w h d) = Some h"
| "param_height (CylinderGeometry rt rb h) = Some h"
| "param_height _ = None"

fun param_depth :: "geometry \<Rightarrow> real option" where
  "param_depth (BoxGeometry w h d) = Some d"
| "param_depth _ = None"

fun param_radius :: "geometry \<Rightarrow> real option" where
  "param_radius (SphereGeometry r) = Some r"
| "param_radius _ = None"

fun param_radiusTop :: "geometry \<Rightarrow> real option" where
  "param_radiusTop (CylinderGeometry rt rb h) = Some rt"
| "param_radiusTop _ = None"

fun param_radiusBottom :: "geometry \<Rightarrow> real option" where
  "param_radiusBottom (CylinderGeometry rt rb h) = Some rb"
| "param_radiusBottom _ = None"

record mesh =
  position :: vec3
  quaternion :: quat
  geometry :: geometry
  emissive :: nat
  emissiveIntensity :: real

text \<open>
  The collision shape as the arguments its constructor is called with; what the engine
  makes of them (defaults, validation) is not modelled, and no property below reads it.
\<close>

datatype collision_shape =
    Plane_shape
  | Box "real option" "real option" "real option"
  | Sphere "real option"
  | Cylinder "real option" "real option" "real option" nat

datatype sleep_state = AWAKE | SLEEPY | SLEEPING

record body =
  mass :: real
  invMass :: real
  body_position :: vec3
  body_quaternion :: quat
  velocity :: vec3
  angularVelocity :: vec3
  shape :: collision_shape
  sleepState :: sleep_state

text \<open>
  The constructor and the two methods of \<open>CANNON.Body\<close> that the registry calls belong
  to the physics engine, which is not part of the sources; they are written after the
  engine. The body type and the inertia are not modelled.
\<close>

definition new_Body :: "real \<Rightarrow> collision_shape \<Rightarrow> vec3 \<Rightarrow> quat \<Rightarrow> body" where
  \<comment> \<open>\<open>new CANNON.Body({mass, shape, position, quaternion})\<close>: a body at rest\<close>
  "new_Body m s p q =
     \<lparr>mass = m, invMass = (if m > 0 then fl64 (1 / m) else 0), body_position = p,
      body_quaternion = q, velocity = Vec3 0 0 0, angularVelocity = Vec3 0 0 0,
      shape = s, sleepState = AWAKE\<rparr>"

definition updateMassProperties :: "body \<Rightarrow> body" where
  \<comment> \<open>\<open>Body.updateMassProperties\<close>: recomputes the inverse mass\<close>
  "updateMassProperties b = b\<lparr>invMass := (if mass b > 0 then fl64 (1 / mass b) else 0)\<rparr>"

definition wakeUp :: "body \<Rightarrow> body" where
  \<comment> \<open>\<open>Body.wakeUp\<close>\<close>
  "wakeUp b = b\<lparr>sleepState := AWAKE\<rparr>"

section \<open>PhysicsWorld: the body registry\<close>

text \<open>
  \<open>bodies\<close> and \<open>meshes\<close> are the two JavaScript Maps, kept as association lists in
  insertion order: \<open>Map.set\<close> is \<open>AList.update\<close> (an existing key keeps its place, a new
  one goes last), \<open>Map.delete\<close> is \<open>AList.delete\<close>, \<open>Map.get\<close> is \<open>map_of\<close>.
  \<open>world_bodies\<close> is the list of bodies of the CANNON world, \<open>body_heap\<close> holds the
  Body objects.
\<close>

record physics_world =
  world_bodies :: "body_ref list"
  gravity :: vec3
  bodies :: "(mesh_ref \<times> body_ref) list"
  meshes :: "(body_ref \<times> mesh_ref) list"
  body_heap :: "body_ref \<Rightarrow> body"

definition fresh_body :: "physics_world \<Rightarrow> body_ref" where
  \<comment> \<open>the identity of a newly constructed Body: different from every body in use\<close>
  "fresh_body w =
     Suc (foldr max (world_bodies w @ map snd (bodies w) @ map fst (meshes w)) 0)"

definition world_addBody :: "body_ref \<Rightarrow> physics_world \<Rightarrow> physics_world" where
  \<comment> \<open>\<open>World.addBody\<close>: a body already in the world is not added again\<close>
  "world_addBody b w =
     (if b \<in> set (world_bodies w) then w else w\<lparr>world_bodies := world_bodies w @ [b]\<rparr>)"

definition world_removeBody :: "body_ref \<Rightarrow> physics_world \<Rightarrow> physics_world" where
  \<comment> \<open>\<open>World.removeBody\<close>\<close>
  "world_removeBody b w = w\<lparr>world_bodies := remove1 b (world_bodies w)\<rparr>"

definition createGround :: "physics_world \<Rightarrow> physics_world" where
  \<comment> \<open>the quaternion is \<open>setFromEuler(-Math.PI / 2, 0, 0)\<close>, with the sine and the
      cosine of half the angle taken as rounded correctly\<close>
  "createGround w =
     (let g = fresh_body w;
          groundBody = new_Body 0 Plane_shape (Vec3 0 0 0)
                         (Quat (fl64 (sin (- fl64 pi / 4))) 0 0 (fl64 (cos (- fl64 pi / 4))))
      in world_addBody g (w\<lparr>body_heap := (body_heap w)(g := groundBody)\<rparr>))"

definition new_PhysicsWorld :: physics_world where
  "new_PhysicsWorld =
     createGround
       \<lparr>world_bodies = [], gravity = Vec3 0 (fl64 (- 9.82)) 0, bodies = [], meshes = [],
        body_heap = (\<lambda>_. new_Body 0 Plane_shape (Vec3 0 0 0) (Quat 0 0 0 1))\<rparr>"

definition arg_or :: "real \<Rightarrow> real option \<Rightarrow> real" where
  \<comment> \<open>a parameter with a default value: \<open>None\<close> is the omitted argument\<close>
  "arg_or d a = (case a of None \<Rightarrow> d | Some v \<Rightarrow> v)"

definition half :: "real option \<Rightarrow> real option" where
  \<comment> \<open>\<open>a / 2\<close>\<close>
  "half a = map_option (\<lambda>v. fl64 (v / 2)) a"

definition register_body :: "mesh_ref \<Rightarrow> body \<Rightarrow> physics_world \<Rightarrow> physics_world \<times> body_ref" where
  \<comment> \<open>the common tail of the three add methods:
      \<open>world.addBody(body); bodies.set(mesh, body); meshes.set(body, mesh); return body\<close>\<close>
  "register_body m bd w =
     (let b = fresh_body w;
          w1 = world_addBody b (w\<lparr>body_heap := (body_heap w)(b := bd)\<rparr>);
          w2 = w1\<lparr>bodies := AList.update m b (bodies w1)\<rparr>;
          w3 = w2\<lparr>meshes := AList.update b m (meshes w2)\<rparr>
      in (w3, b))"

text \<open>
  The three add methods read the parameters of the geometry first, through a cast that
  checks nothing. On a geometry without a \<open>parameters\<close> object that read throws a
  TypeError, before anything is constructed or registered: the result \<open>Inl TypeError\<close>.
  Otherwise they return the new registry and the new body.
\<close>

definition addBox ::
  "(mesh_ref \<Rightarrow> mesh) \<Rightarrow> mesh_ref \<Rightarrow> real option \<Rightarrow> physics_world \<Rightarrow>
   js_error + physics_world \<times> body_ref" where
  "addBox mh m mass_arg w =
     (let g = geometry (mh m)
      in if \<not> has_parameters g then Inl TypeError
         else (let s = Box (half (param_width g)) (half (param_height g))
                         (half (param_depth g));
                   bd = new_Body (arg_or 1 mass_arg) s (position (mh m)) (quaternion (mh m))
               in Inr (register_body m bd w)))"

definition addSphere ::
  "(mesh_ref \<Rightarrow> mesh) \<Rightarrow> mesh_ref \<Rightarrow> real option \<Rightarrow> physics_world \<Rightarrow>
   js_error + physics_world \<times> body_ref" where
  "addSphere mh m mass_arg w =
     (let g = geometry (mh m)
      in if \<not> has_parameters g then Inl TypeError
         else (let s = Sphere (param_radius g);
                   bd = new_Body (arg_or 1 mass_arg) s (position (mh m)) (Quat 0 0 0 1)
               in Inr (register_body m bd w)))"

definition addCylinder ::
  "(mesh_ref \<Rightarrow> mesh) \<Rightarrow> mesh_ref \<Rightarrow> real option \<Rightarrow> physics_world \<Rightarrow>
   js_error + physics_world \<times> body_ref" where
  "addCylinder mh m mass_arg w =
     (let g = geometry (mh m)
      in if \<not> has_parameters g then Inl TypeError
         else (let s = Cylinder (param_radiusTop g) (param_radiusBottom g)
                         (param_height g) 8;
                   bd = new_Body (arg_or 1 mass_arg) s (position (mh m)) (Quat 0 0 0 1)
               in Inr (register_body m bd w)))"

definition after_add :: "physics_world \<Rightarrow> js_error + physics_world \<times> body_ref \<Rightarrow> physics_world" where
  \<comment> \<open>the registry after a call of an add method on \<open>w\<close>: a call that throws leaves it\<close>
  "after_add w r = (case r of Inl e \<Rightarrow> w | Inr (w', b) \<Rightarrow> w')"

definition added_body :: "js_error + physics_world \<times> body_ref \<Rightarrow> body_ref option" where
  \<comment> \<open>the body a call of an add method returns, when it returns\<close>
  "added_body r = (case r of Inl e \<Rightarrow> None | Inr (w', b) \<Rightarrow> Some b)"

definition getBody :: "physics_world \<Rightarrow> mesh_ref \<Rightarrow> body_ref option" where
  "getBody w m = map_of (bodies w) m"

definition getMesh :: "physics_world \<Rightarrow> body_ref \<Rightarrow> mesh_ref option" where
  "getMesh w b = map_of (meshes w) b"

definition removeBody :: "mesh_ref \<Rightarrow> physics_world \<Rightarrow> physics_world" where
  "removeBody m w =
     (case map_of (bodies w) m of
        None \<Rightarrow> w
      | Some b \<Rightarrow>
          (let w1 = world_removeBody b w;
               w2 = w1\<lparr>bodies := AList.delete m (bodies w1)\<rparr>
           in w2\<lparr>meshes := AList.delete b (meshes w2)\<rparr>))"

definition freezeBody :: "mesh_ref \<Rightarrow> physics_world \<Rightarrow> physics_world" where
  "freezeBody m w =
     (case map_of (bodies w) m of
        None \<Rightarrow> w
      | Some b \<Rightarrow>
          (let b1 = (body_heap w b)\<lparr>mass := 0\<rparr>;
               b2 = updateMassProperties b1;
               b3 = b2\<lparr>velocity := Vec3 0 0 0\<rparr>;
               b4 = b3\<lparr>angularVelocity := Vec3 0 0 0\<rparr>
           in w\<lparr>body_heap := (body_heap w)(b := b4)\<rparr>))"

definition unfreezeBody :: "mesh_ref \<Rightarrow> real option \<Rightarrow> physics_world \<Rightarrow> physics_world" where
  "unfreezeBody m mass_arg w =
     (case map_of (bodies w) m of
        None \<Rightarrow> w
      | Some b \<Rightarrow>
          (let b1 = (body_heap w b)\<lparr>mass := arg_or 1 mass_arg\<rparr>;
               b2 = updateMassProperties b1;
               b3 = wakeUp b2
           in w\<lparr>body_heap := (body_heap w)(b := b3)\<rparr>))"

text \<open>
  Modelled from the spec: the simulation world's \<open>step\<close>, which belongs to the rigid-body
  engine and is not part of the sources. The spec: a Body's mass is "zero = static/immovable,
  non-zero = dynamic and subject to gravity/collision", and the "physics step (advances all
  non-frozen Bodies)". So a step replaces every body of the world whose mass is not zero
  by what the engine's solver computes for it, and leaves every other body as it is. The
  solver is the parameter \<open>advance\<close>; it receives the arguments of the call.
\<close>

definition world_step ::
  "(real \<Rightarrow> real \<Rightarrow> nat \<Rightarrow> physics_world \<Rightarrow> body_ref \<Rightarrow> body) \<Rightarrow>
   real \<Rightarrow> real \<Rightarrow> nat \<Rightarrow> physics_world \<Rightarrow> physics_world" where
  "world_step advance dt timeSinceLastCalled maxSubSteps w =
     w\<lparr>body_heap := (\<lambda>b.
          if b \<in> set (world_bodies w) \<and> mass (body_heap w b) \<noteq> 0
          then advance dt timeSinceLastCalled maxSubSteps w b
          else body_heap w b)\<rparr>"

definition copy_pose :: "body \<Rightarrow> mesh \<Rightarrow> mesh" where
  \<comment> \<open>\<open>mesh.position.copy(body.position); mesh.quaternion.copy(body.quaternion)\<close>\<close>
  "copy_pose bd me = me\<lparr>position := body_position bd, quaternion := body_quaternion bd\<rparr>"

definition sync_one ::
  "physics_world \<Rightarrow> mesh_ref \<times> body_ref \<Rightarrow> (mesh_ref \<Rightarrow> mesh) \<Rightarrow> (mesh_ref \<Rightarrow> mesh)" where
  \<comment> \<open>the callback of the \<open>forEach\<close> in \<open>update\<close>, for one entry (mesh, body)\<close>
  "sync_one w e mh = mh(fst e := copy_pose (body_heap w (snd e)) (mh (fst e)))"

definition sync_meshes :: "physics_world \<Rightarrow> (mesh_ref \<Rightarrow> mesh) \<Rightarrow> (mesh_ref \<Rightarrow> mesh)" where
  \<comment> \<open>\<open>bodies.forEach\<close>, in insertion order\<close>
  "sync_meshes w mh = fold (sync_one w) (bodies w) mh"

definition update ::
  "(real \<Rightarrow> real \<Rightarrow> nat \<Rightarrow> physics_world \<Rightarrow> body_ref \<Rightarrow> body) \<Rightarrow> real \<Rightarrow>
   (mesh_ref \<Rightarrow> mesh) \<times> physics_world \<Rightarrow> (mesh_ref \<Rightarrow> mesh) \<times> physics_world" where
  "update advance deltaTime s =
     (let w = world_step advance (fl64 (1 / 60)) deltaTime 3 (snd s)
      in (sync_meshes w (fst s), w))"

section \<open>Rays and planes of the renderer\<close>

text \<open>
  \<open>THREE.Ray\<close> and \<open>THREE.Plane\<close> belong to the rendering library, which is not part
  of the sources; the functions the interactor calls are written after the library.
\<close>

record ray =
  origin :: vec3
  direction :: vec3

record plane =
  normal :: vec3
  plane_constant :: real

definition setFromNormalAndCoplanarPoint :: "vec3 \<Rightarrow> vec3 \<Rightarrow> plane" where
  \<comment> \<open>\<open>Plane.setFromNormalAndCoplanarPoint\<close>\<close>
  "setFromNormalAndCoplanarPoint n p = \<lparr>normal = n, plane_constant = - vdot p n\<rparr>"

definition distanceToPoint :: "plane \<Rightarrow> vec3 \<Rightarrow> real" where
  \<comment> \<open>\<open>Plane.distanceToPoint\<close>\<close>
  "distanceToPoint pl p = fl64 (vdot (normal pl) p + plane_constant pl)"

definition distanceToPlane :: "ray \<Rightarrow> plane \<Rightarrow> real option" where
  \<comment> \<open>\<open>Ray.distanceToPlane\<close>: \<open>None\<close> is \<open>null\<close>, for a ray parallel to the plane and
      outside it and for a plane behind the ray; a ray inside the plane meets it at its origin\<close>
  "distanceToPlane r pl =
     (let denominator = vdot (normal pl) (direction r)
      in if denominator = 0
         then (if distanceToPoint pl (origin r) = 0 then Some 0 else None)
         else (let t = fl64 (- fl64 (vdot (origin r) (normal pl) + plane_constant pl)
                              / denominator)
               in if t \<ge> 0 then Some t else None))"

definition intersectPlane :: "ray \<Rightarrow> plane \<Rightarrow> vec3 \<Rightarrow> vec3 option \<times> vec3" where
  \<comment> \<open>\<open>Ray.intersectPlane(plane, target)\<close>: the value returned and \<open>target\<close> after the
      call. Without an intersection it returns \<open>null\<close> and does not write \<open>target\<close>.\<close>
  "intersectPlane r pl target =
     (case distanceToPlane r pl of
        None \<Rightarrow> (None, target)
      | Some t \<Rightarrow> (let p = addScaledVector (origin r) (direction r) t in (Some p, p)))"

section \<open>DragControls: the drag interactor\<close>

record drag_controls =
  mouse :: "real \<times> real"
  raycaster_ray :: ray
  dragPlane :: plane
  draggableObjects :: "mesh_ref list"
  selectedObject :: "mesh_ref option"
  offset :: vec3
  isDragging :: bool
  dragStartPosition :: vec3

text \<open>
  A mouse event as the handlers see it: the pointer coordinates, the size of the window,
  and what the renderer's ray caster answers for that pointer position: the camera ray of
  \<open>setFromCamera\<close> and the hits of \<open>intersectObjects\<close> on the candidates (object and
  point, nearest first).
\<close>

record mouse_event =
  clientX :: real
  clientY :: real
  innerWidth :: real
  innerHeight :: real
  cameraRay :: ray
  intersects :: "(mesh_ref \<times> vec3) list"

text \<open>
  The application: the meshes, the registry with the bodies, the interactor, the cursor of
  the page, the block list of the BlockSystem and the blocks in the scene.
\<close>

record app =
  mesh_heap :: "mesh_ref \<Rightarrow> mesh"
  physics :: physics_world
  controls :: drag_controls
  cursor :: string
  blocks :: "mesh_ref list"
  scene :: "mesh_ref list"

definition new_DragControls :: drag_controls where
  "new_DragControls =
     \<lparr>mouse = (0, 0),
      raycaster_ray = \<lparr>origin = Vec3 0 0 0, direction = Vec3 0 0 (- 1)\<rparr>,
      dragPlane = \<lparr>normal = Vec3 0 1 0, plane_constant = 0\<rparr>,
      draggableObjects = [], selectedObject = None, offset = Vec3 0 0 0,
      isDragging = False, dragStartPosition = Vec3 0 0 0\<rparr>"

definition addDraggable :: "mesh_ref \<Rightarrow> drag_controls \<Rightarrow> drag_controls" where
  "addDraggable object c =
     (if object \<notin> set (draggableObjects c)
      then c\<lparr>draggableObjects := draggableObjects c @ [object]\<rparr>
      else c)"

definition removeDraggable :: "mesh_ref \<Rightarrow> drag_controls \<Rightarrow> drag_controls" where
  \<comment> \<open>\<open>indexOf\<close> finds the first occurrence, \<open>splice(index, 1)\<close> removes that one\<close>
  "removeDraggable object c =
     (if object \<in> set (draggableObjects c)
      then c\<lparr>draggableObjects := remove1 object (draggableObjects c)\<rparr>
      else c)"

definition updateMousePosition :: "mouse_event \<Rightarrow> drag_controls \<Rightarrow> drag_controls" where
  \<comment> \<open>\<open>mouse\<close> is only stored: the camera ray for it comes with the event\<close>
  "updateMousePosition ev c =
     c\<lparr>mouse := (fl64 (fl64 (fl64 (clientX ev / innerWidth ev) * 2) - 1),
                 fl64 (fl64 (- fl64 (clientY ev / innerHeight ev) * 2) + 1))\<rparr>"

definition highlightObject :: "mesh_ref \<Rightarrow> bool \<Rightarrow> (mesh_ref \<Rightarrow> mesh) \<Rightarrow> (mesh_ref \<Rightarrow> mesh)" where
  "highlightObject object highlight mh =
     (if highlight
      then mh(object := (mh object)\<lparr>emissive := 0x444444, emissiveIntensity := fl64 0.3\<rparr>)
      else mh(object := (mh object)\<lparr>emissive := 0x000000, emissiveIntensity := 0\<rparr>))"

definition onMouseDown :: "mouse_event \<Rightarrow> app \<Rightarrow> app" where
  "onMouseDown ev s =
     (let c1 = updateMousePosition ev (controls s);
          c2 = c1\<lparr>raycaster_ray := cameraRay ev\<rparr>
      in case intersects ev of
           [] \<Rightarrow> s\<lparr>controls := c2\<rparr>
         | (object, point) # _ \<Rightarrow>
             (let c3 = c2\<lparr>selectedObject := Some object, isDragging := True,
                          dragStartPosition := position (mesh_heap s object)\<rparr>;
                  w = freezeBody object (physics s);
                  c4 = c3\<lparr>dragPlane := setFromNormalAndCoplanarPoint (Vec3 0 1 0) point\<rparr>;
                  c5 = c4\<lparr>offset := vsub point (position (mesh_heap s object))\<rparr>
              in s\<lparr>mesh_heap := highlightObject object True (mesh_heap s),
                    physics := w, controls := c5, cursor := ''grabbing''\<rparr>))"

definition drag_to :: "vec3 \<Rightarrow> vec3 \<Rightarrow> vec3" where
  \<comment> \<open>\<open>position.copy(intersection.sub(offset))\<close>, then the minimum height\<close>
  "drag_to intersection off =
     (let p = vsub intersection off in if vy p < 0.5 then set_y p 0.5 else p)"

definition sync_body :: "mesh_ref \<Rightarrow> (mesh_ref \<Rightarrow> mesh) \<Rightarrow> physics_world \<Rightarrow> physics_world" where
  \<comment> \<open>\<open>const body = physics.getBody(object); if (body) { copy position and quaternion }\<close>\<close>
  "sync_body object mh w =
     (case getBody w object of
        None \<Rightarrow> w
      | Some b \<Rightarrow>
          w\<lparr>body_heap := (body_heap w)(b := (body_heap w b)
               \<lparr>body_position := position (mh object), body_quaternion := quaternion (mh object)\<rparr>)\<rparr>)"

definition onMouseMove :: "mouse_event \<Rightarrow> app \<Rightarrow> app" where
  \<comment> \<open>\<open>if (intersection)\<close> tests the Vector3 that was passed as target, an object, which
      is always truthy: the value \<open>intersectPlane\<close> returned is dropped\<close>
  "onMouseMove ev s =
     (let c1 = updateMousePosition ev (controls s)
      in case (if isDragging c1 then selectedObject c1 else None) of
           Some object \<Rightarrow>
             (let c2 = c1\<lparr>raycaster_ray := cameraRay ev\<rparr>;
                  intersection = snd (intersectPlane (raycaster_ray c2) (dragPlane c2) (Vec3 0 0 0));
                  mh = (mesh_heap s)(object :=
                         (mesh_heap s object)\<lparr>position := drag_to intersection (offset c2)\<rparr>)
              in s\<lparr>mesh_heap := mh, physics := sync_body object mh (physics s), controls := c2\<rparr>)
         | None \<Rightarrow>
             (let c2 = c1\<lparr>raycaster_ray := cameraRay ev\<rparr>
              in s\<lparr>controls := c2,
                    cursor := (if intersects ev \<noteq> [] then ''grab'' else ''default'')\<rparr>))"

definition onMouseUp :: "mouse_event \<Rightarrow> app \<Rightarrow> app" where
  "onMouseUp ev s =
     (case (if isDragging (controls s) then selectedObject (controls s) else None) of
        Some object \<Rightarrow>
          s\<lparr>physics := unfreezeBody object (Some 1) (physics s),
            mesh_heap := highlightObject object False (mesh_heap s),
            controls := (controls s)\<lparr>isDragging := False, selectedObject := None\<rparr>,
            cursor := ''default''\<rparr>
      | None \<Rightarrow> s\<lparr>cursor := ''default''\<rparr>)"

section \<open>BlockSystem: removing blocks\<close>

definition removeBlock :: "mesh_ref \<Rightarrow> app \<Rightarrow> app" where
  \<comment> \<open>releasing the geometry and the material (\<open>dispose\<close>) is not modelled\<close>
  "removeBlock m s =
     (if m \<in> set (blocks s)
      then s\<lparr>blocks := remove1 m (blocks s),
             physics := removeBody m (physics s),
             scene := remove1 m (scene s)\<rparr>
      else s)"

definition clearAllBlocks :: "app \<Rightarrow> app" where
  \<comment> \<open>\<open>[...this.blocks].forEach(block => this.removeBlock(block))\<close>\<close>
  "clearAllBlocks s = fold removeBlock (blocks s) s"

section \<open>Properties and example states\<close>

definition is_double :: "real \<Rightarrow> bool" where
  \<comment> \<open>a number that rounding leaves as it is\<close>
  "is_double x \<longleftrightarrow> fl64 x = x"

definition is_Map :: "('k \<times> 'v) list \<Rightarrow> bool" where
  \<comment> \<open>a JavaScript Map holds each key once\<close>
  "is_Map al = distinct (map fst al)"

definition bijection_inv :: "physics_world \<Rightarrow> bool" where
  \<comment> \<open>every entry of either Map is found back through the other one\<close>
  "bijection_inv w \<longleftrightarrow>
     is_Map (bodies w) \<and> is_Map (meshes w) \<and>
     list_all (\<lambda>(m, b). getMesh w b = Some m) (bodies w) \<and>
     list_all (\<lambda>(b, m). getBody w m = Some b) (meshes w)"

definition dragging :: "app \<Rightarrow> mesh_ref \<Rightarrow> bool" where
  \<comment> \<open>the interactor is in its Dragging state, with mesh \<open>m\<close> grabbed\<close>
  "dragging s m \<longleftrightarrow> isDragging (controls s) \<and> selectedObject (controls s) = Some m"

definition pointer_moves :: "mouse_event list \<Rightarrow> app \<Rightarrow> app" where
  \<comment> \<open>a sequence of pointer-moves, the first event of the list first\<close>
  "pointer_moves evs s = fold onMouseMove evs s"

datatype candidate_call = AddDraggable mesh_ref | RemoveDraggable mesh_ref

fun apply_call :: "candidate_call \<Rightarrow> drag_controls \<Rightarrow> drag_controls" where
  "apply_call (AddDraggable object) c = addDraggable object c"
| "apply_call (RemoveDraggable object) c = removeDraggable object c"

text \<open>
  Blocks of the presets: the standard cube and the flat block of the house foundation.
  \<open>bare_at\<close> is a mesh whose geometry has no \<open>parameters\<close> object.
\<close>

definition cube_at :: "vec3 \<Rightarrow> mesh" where
  "cube_at p = \<lparr>position = p, quaternion = Quat 0 0 0 1, geometry = BoxGeometry 1 1 1,
                emissive = 0, emissiveIntensity = 0\<rparr>"

definition flat_at :: "vec3 \<Rightarrow> mesh" where
  "flat_at p = \<lparr>position = p, quaternion = Quat 0 0 0 1, geometry = BoxGeometry 2 0.25 1,
                emissive = 0, emissiveIntensity = 0\<rparr>"

definition bare_at :: "vec3 \<Rightarrow> mesh" where
  "bare_at p = \<lparr>position = p, quaternion = Quat 0 0 0 1, geometry = BufferGeometry,
                emissive = 0, emissiveIntensity = 0\<rparr>"

definition example_meshes :: "mesh_ref \<Rightarrow> mesh" where
  "example_meshes = (\<lambda>_. cube_at (Vec3 0 5 0))"

definition moved_meshes :: "mesh_ref \<Rightarrow> mesh" where
  \<comment> \<open>the meshes of \<open>example_meshes\<close> after something else moved them to x = 3\<close>
  "moved_meshes = (\<lambda>_. cube_at (Vec3 3 5 0))"

definition bare_meshes :: "mesh_ref \<Rightarrow> mesh" where
  "bare_meshes = (\<lambda>_. bare_at (Vec3 0 5 0))"

definition one_box :: physics_world where
  \<comment> \<open>a new world with mesh 0 registered: the ground is body 1, the box body 2\<close>
  "one_box = after_add new_PhysicsWorld (addBox example_meshes 0 (Some 1) new_PhysicsWorld)"

definition falling :: "real \<Rightarrow> real \<Rightarrow> nat \<Rightarrow> physics_world \<Rightarrow> body_ref \<Rightarrow> body" where
  \<comment> \<open>a solver to run examples with: the body it is asked for drops by half a unit\<close>
  "falling dt timeSinceLastCalled maxSubSteps w b =
     (body_heap w b)\<lparr>body_position := vsub (body_position (body_heap w b)) (Vec3 0 (1 / 2) 0)\<rparr>"

definition one_block_app :: "mesh \<Rightarrow> app" where
  \<comment> \<open>the application after one box block was created as mesh 0 and made draggable\<close>
  "one_block_app me =
     \<lparr>mesh_heap = (\<lambda>_. me),
      physics = after_add new_PhysicsWorld (addBox (\<lambda>_. me) 0 (Some 1) new_PhysicsWorld),
      controls = addDraggable 0 new_DragControls,
      cursor = ''default'', blocks = [0], scene = [0]\<rparr>"

definition pointer :: "ray \<Rightarrow> (mesh_ref \<times> vec3) list \<Rightarrow> mouse_event" where
  "pointer r hits =
     \<lparr>clientX = 400, clientY = 300, innerWidth = 800, innerHeight = 600,
      cameraRay = r, intersects = hits\<rparr>"

text \<open>
  Rays of a camera at (2, 5, 3): to the top of a cube standing at (2, 0.5, 0), which is
  reported hit in (2, 1, 0); level over the ground; and straight down, to (2, 0, 3).
\<close>

definition grab_ray :: ray where
  "grab_ray = \<lparr>origin = Vec3 2 5 3, direction = Vec3 0 (fl64 (- 0.8)) (fl64 (- 0.6))\<rparr>"

definition level_ray :: ray where
  "level_ray = \<lparr>origin = Vec3 2 5 3, direction = Vec3 0 0 (- 1)\<rparr>"

definition aside_ray :: ray where
  "aside_ray = \<lparr>origin = Vec3 2 5 3, direction = Vec3 0 (- 1) 0\<rparr>"

definition grabbed_cube :: app where
  \<comment> \<open>the cube at (2, 0.5, 0) grabbed at the top\<close>
  "grabbed_cube =
     onMouseDown (pointer grab_ray [(0, Vec3 2 1 0)]) (one_block_app (cube_at (Vec3 2 0.5 0)))"

text \<open>
  Rays straight down from a camera above the block: \<open>top_ray\<close> from (2, 6, 0) onto the
  cube at (2, 0.5, 0), \<open>flat_ray\<close> from (0, 6, 0) onto the flat block at (0, 0.125, 0),
  \<open>tenth_ray\<close> from (0.5, 6, 0) onto a cube at (0.1, 0.5, 0), 0.1 being the double
  \<open>tenth\<close>. \<open>side_ray\<close> is horizontal, at height 0.75, and hits the front of the cube
  at (2, 0.5, 0) in (2, 0.75, 0.5).
\<close>

definition top_ray :: ray where
  "top_ray = \<lparr>origin = Vec3 2 6 0, direction = Vec3 0 (- 1) 0\<rparr>"

definition grabbed_top :: app where
  "grabbed_top =
     onMouseDown (pointer top_ray [(0, Vec3 2 1 0)]) (one_block_app (cube_at (Vec3 2 0.5 0)))"

definition flat_ray :: ray where
  "flat_ray = \<lparr>origin = Vec3 0 6 0, direction = Vec3 0 (- 1) 0\<rparr>"

definition grabbed_flat :: app where
  \<comment> \<open>the flat block at (0, 0.125, 0) grabbed at the top\<close>
  "grabbed_flat =
     onMouseDown (pointer flat_ray [(0, Vec3 0 0.25 0)])
       (one_block_app (flat_at (Vec3 0 0.125 0)))"

definition side_ray :: ray where
  "side_ray = \<lparr>origin = Vec3 2 0.75 3, direction = Vec3 0 0 (- 1)\<rparr>"

definition grabbed_side :: app where
  \<comment> \<open>the cube at (2, 0.5, 0) grabbed at the front\<close>
  "grabbed_side =
     onMouseDown (pointer side_ray [(0, Vec3 2 0.75 0.5)])
       (one_block_app (cube_at (Vec3 2 0.5 0)))"

definition tenth :: real where
  \<comment> \<open>the double that the literal \<open>0.1\<close> denotes\<close>
  "tenth = 3602879701896397 / 2 ^ 55"

definition tenth_ray :: ray where
  "tenth_ray = \<lparr>origin = Vec3 (1 / 2) 6 0, direction = Vec3 0 (- 1) 0\<rparr>"

definition grabbed_tenth :: app where
  \<comment> \<open>the cube at (0.1, 0.5, 0) grabbed at the top, in (0.5, 1, 0)\<close>
  "grabbed_tenth =
     onMouseDown (pointer tenth_ray [(0, Vec3 (1 / 2) 1 0)])
       (one_block_app (cube_at (Vec3 tenth (1 / 2) 0)))"

section \<open>Helper lemmas\<close>

subsection \<open>Rounding\<close>

lemma round_half_even_of_int: "round_half_even (of_int i) = i"
  by (simp add: round_half_even_def)

lemma floor_log2_bounds:
  assumes "2 powr of_int e \<le> x" and "x < 2 powr of_int (e + 1)"
  shows "\<lfloor>log 2 x\<rfloor> = e"
proof -
  have "0 < 2 powr real_of_int e" by simp
  then have pos: "0 < x" using assms(1) by (rule less_le_trans)
  have "of_int e \<le> log 2 x" using assms(1) pos by (simp add: le_log_iff)
  moreover have "log 2 x < of_int (e + 1)" using assms(2) pos by (simp add: log_less_iff)
  ultimately show ?thesis by linarith
qed

lemma fl64_eval:
  assumes "2 powr of_int e \<le> \<bar>x\<bar>" and "\<bar>x\<bar> < 2 powr of_int (e + 1)" and "- 1022 \<le> e"
  shows "fl64 x = 2 powr of_int (e - 52) * of_int (round_half_even (x / 2 powr of_int (e - 52)))"
proof -
  have "0 < 2 powr real_of_int e" by simp
  then have "0 < \<bar>x\<bar>" using assms(1) by (rule less_le_trans)
  then have "x \<noteq> 0" by simp
  moreover have "\<lfloor>log 2 \<bar>x\<bar>\<rfloor> = e" using assms(1,2) by (rule floor_log2_bounds)
  ultimately show ?thesis using assms(3) by (simp add: fl64_def Let_def max_def)
qed

text \<open>An integer of at most 53 bits times a power of two is a double.\<close>

lemma fl64_dyadic:
  assumes "\<bar>k\<bar> < 2 ^ 53" and "- 1074 \<le> n"
  shows "fl64 (of_int k * 2 powr of_int n) = of_int k * 2 powr of_int n"
proof (cases "k = 0")
  case True
  then show ?thesis by (simp add: fl64_def)
next
  case False
  let ?x = "of_int k * 2 powr of_int n :: real"
  have x0: "?x \<noteq> 0" using False by simp
  define e where "e = max \<lfloor>log 2 \<bar>?x\<bar>\<rfloor> (- 1022)"
  have k1: "1 \<le> \<bar>real_of_int k\<bar>" using False by linarith
  have k2: "\<bar>real_of_int k\<bar> < 2 ^ 53"
    using assms(1) by (metis of_int_abs of_int_less_numeral_power_cancel_iff)
  have absx: "\<bar>?x\<bar> = \<bar>real_of_int k\<bar> * 2 powr of_int n" by (simp add: abs_mult)
  have lg: "log 2 \<bar>?x\<bar> = log 2 \<bar>real_of_int k\<bar> + of_int n"
    using k1 False by (simp add: absx log_mult)
  have "log 2 \<bar>real_of_int k\<bar> < 53"
    using k1 k2 by (simp add: log_less_iff)
  then have "\<lfloor>log 2 \<bar>?x\<bar>\<rfloor> \<le> 52 + n" unfolding lg by linarith
  then have e_le: "e \<le> n + 52" using assms(2) by (simp add: e_def)
  define j where "j = nat (n + 52 - e)"
  have j: "of_int n - of_int (e - 52) = real j" using e_le by (simp add: j_def)
  have "?x / 2 powr of_int (e - 52) = of_int k * 2 powr (of_int n - of_int (e - 52))"
    by (simp add: powr_diff)
  also have "\<dots> = of_int k * 2 ^ j" unfolding j by (simp add: powr_realpow)
  also have "\<dots> = of_int (k * 2 ^ j)" by simp
  finally have q: "?x / 2 powr of_int (e - 52) = of_int (k * 2 ^ j)" .
  have "fl64 ?x = 2 powr of_int (e - 52) * of_int (round_half_even (?x / 2 powr of_int (e - 52)))"
    using x0 by (simp add: fl64_def Let_def e_def)
  also have "\<dots> = 2 powr of_int (e - 52) * (?x / 2 powr of_int (e - 52))"
    unfolding q round_half_even_of_int ..
  also have "\<dots> = ?x" by simp
  finally show ?thesis .
qed

lemma fl64_frac:
  assumes "\<bar>k\<bar> < 2 ^ 53" and "j \<le> 1074"
  shows "fl64 (real_of_int k / 2 ^ j) = of_int k / 2 ^ j"
proof -
  have "2 powr of_int (- int j) = 1 / (2::real) ^ j"
    by (simp add: powr_minus powr_realpow inverse_eq_divide)
  then have "real_of_int k / 2 ^ j = of_int k * 2 powr of_int (- int j)" by simp
  moreover have "- 1074 \<le> - int j" using assms(2) by simp
  ultimately show ?thesis using fl64_dyadic [OF assms(1), of "- int j"] by simp
qed

text \<open>The numbers of the examples are doubles.\<close>

lemma fl64_small:
  "fl64 0 = 0" "fl64 1 = 1" "fl64 (- 1) = - 1" "fl64 2 = 2" "fl64 3 = 3" "fl64 4 = 4"
  "fl64 5 = 5" "fl64 (- 5) = - 5" "fl64 6 = 6" "fl64 (- 4) = - 4"
  "fl64 (1 / 2) = 1 / 2" "fl64 (- (1 / 2)) = - (1 / 2)" "fl64 (1 / 4) = 1 / 4"
  "fl64 (1 / 8) = 1 / 8" "fl64 (3 / 4) = 3 / 4" "fl64 (5 / 2) = 5 / 2" "fl64 (9 / 2) = 9 / 2"
  "fl64 (23 / 4) = 23 / 4" "fl64 (- (23 / 4)) = - (23 / 4)"
  "fl64 (19 / 4) = 19 / 4" "fl64 (- (19 / 4)) = - (19 / 4)"
  using fl64_frac [of 0 0] fl64_frac [of 1 0] fl64_frac [of "- 1" 0] fl64_frac [of 2 0]
    fl64_frac [of 3 0] fl64_frac [of 4 0] fl64_frac [of 5 0] fl64_frac [of "- 5" 0]
    fl64_frac [of 6 0] fl64_frac [of "- 4" 0] fl64_frac [of 1 1] fl64_frac [of "- 1" 1]
    fl64_frac [of 1 2] fl64_frac [of 1 3] fl64_frac [of 3 2] fl64_frac [of 5 1]
    fl64_frac [of 9 1] fl64_frac [of 23 2] fl64_frac [of "- 23" 2] fl64_frac [of 19 2]
    fl64_frac [of "- 19" 2]
  by simp_all

lemma tenth_double: "fl64 tenth = tenth"
  unfolding tenth_def using fl64_frac [of 3602879701896397 55] by simp

text \<open>\<open>0.5 - 0.1\<close> is rounded up, to the double 0.4; \<open>0.5 - 0.4\<close> is exact and less than 0.1.\<close>

lemma half_minus_tenth: "fl64 (1 / 2 - tenth) = 3602879701896397 / 2 ^ 53"
proof -
  have v: "1 / 2 - tenth = 14411518807585587 / 2 ^ 55" by (simp add: tenth_def)
  have p1: "2 powr of_int (- 2) = (1 / 4 :: real)"
    by (simp add: powr_minus powr_realpow inverse_eq_divide)
  have p2: "2 powr of_int (- 2 + 1) = (1 / 2 :: real)"
    by (simp add: powr_minus inverse_eq_divide)
  have p3: "2 powr of_int (- 2 - 52) = 1 / (2 :: real) ^ 54"
  proof -
    have "2 powr of_int (- 2 - 52) = 2 powr (- real (54::nat))" by simp
    also have "\<dots> = 1 / (2 :: real) ^ 54"
      unfolding powr_minus powr_realpow [OF zero_less_numeral] by (simp add: inverse_eq_divide)
    finally show ?thesis .
  qed
  have a: "2 powr of_int (- 2) \<le> \<bar>14411518807585587 / 2 ^ 55 :: real\<bar>" unfolding p1 by simp
  have b: "\<bar>14411518807585587 / 2 ^ 55 :: real\<bar> < 2 powr of_int (- 2 + 1)" unfolding p2 by simp
  have q: "(14411518807585587 / 2 ^ 55) / (1 / (2 :: real) ^ 54) = 14411518807585587 / 2" by simp
  have r: "round_half_even (14411518807585587 / 2) = 7205759403792794"
    by (simp add: round_half_even_def Let_def)
  show ?thesis
    unfolding v using fl64_eval [OF a b] unfolding p3 q r by simp
qed

lemma half_minus_four_tenths:
  "1 / 2 - 3602879701896397 / 2 ^ 53 = (900719925474099 / 9007199254740992 :: real)"
  "fl64 (900719925474099 / 9007199254740992) = 900719925474099 / 9007199254740992"
  using fl64_frac [of 900719925474099 53] by simp_all

subsection \<open>Unfolding the definitions\<close>

lemmas registry_simps =
  addBox_def addSphere_def addCylinder_def after_add_def added_body_def register_body_def
  new_PhysicsWorld_def createGround_def world_addBody_def world_removeBody_def fresh_body_def
  Let_def getBody_def getMesh_def removeBody_def freezeBody_def unfreezeBody_def
  updateMassProperties_def wakeUp_def new_Body_def arg_or_def half_def
  bijection_inv_def is_Map_def one_box_def example_meshes_def bare_meshes_def
  cube_at_def bare_at_def fl64_small

lemmas drag_simps =
  onMouseDown_def onMouseMove_def onMouseUp_def updateMousePosition_def highlightObject_def
  setFromNormalAndCoplanarPoint_def intersectPlane_def distanceToPlane_def distanceToPoint_def
  drag_to_def sync_body_def vsub_def vdot_def addScaledVector_def set_y_def
  addDraggable_def new_DragControls_def one_block_app_def pointer_def grab_ray_def
  level_ray_def aside_ray_def flat_ray_def side_ray_def top_ray_def tenth_ray_def flat_at_def
  removeBlock_def clearAllBlocks_def pointer_moves_def dragging_def grabbed_cube_def
  grabbed_flat_def grabbed_side_def grabbed_top_def grabbed_tenth_def

subsection \<open>The two Maps\<close>

lemma bijection_inv_iff:
  "bijection_inv w \<longleftrightarrow>
     distinct (map fst (bodies w)) \<and> distinct (map fst (meshes w)) \<and>
     (\<forall>m b. map_of (bodies w) m = Some b \<longleftrightarrow> map_of (meshes w) b = Some m)"
  unfolding bijection_inv_def is_Map_def getMesh_def getBody_def list_all_iff
  by auto

lemma le_foldr_max: "x \<in> set xs \<Longrightarrow> x \<le> foldr max xs (0::nat)"
  by (induction xs) (auto simp: max_def)

lemma fresh_body_gt:
  "b \<in> set (world_bodies w) \<union> snd ` set (bodies w) \<union> fst ` set (meshes w) \<Longrightarrow>
   b < fresh_body w"
  unfolding fresh_body_def
  using le_foldr_max [of b "world_bodies w @ map snd (bodies w) @ map fst (meshes w)"]
  by (auto simp: less_Suc_eq_le)

lemma fresh_not_key: "map_of (meshes w) (fresh_body w) = None"
  using fresh_body_gt [of "fresh_body w" w] by (auto simp: map_of_eq_None_iff)

lemma fresh_not_val: "map_of (bodies w) m \<noteq> Some (fresh_body w)"
proof
  assume "map_of (bodies w) m = Some (fresh_body w)"
  then have "(m, fresh_body w) \<in> set (bodies w)" by (rule map_of_SomeD)
  then have "fresh_body w \<in> snd ` set (bodies w)" by force
  then show False using fresh_body_gt [of "fresh_body w" w] by simp
qed

lemma fresh_not_world: "fresh_body w \<notin> set (world_bodies w)"
  using fresh_body_gt [of "fresh_body w" w] by auto

lemma register_body_effect:
  "snd (register_body m bd w) = fresh_body w \<and>
   world_bodies (fst (register_body m bd w)) = world_bodies w @ [fresh_body w] \<and>
   bodies (fst (register_body m bd w)) = AList.update m (fresh_body w) (bodies w) \<and>
   meshes (fst (register_body m bd w)) = AList.update (fresh_body w) m (meshes w) \<and>
   body_heap (fst (register_body m bd w)) = (body_heap w)(fresh_body w := bd)"
  using fresh_not_world [of w]
  by (simp add: register_body_def world_addBody_def Let_def)

lemma register_body_inv:
  assumes "bijection_inv w" and "getBody w m = None"
  shows "bijection_inv (fst (register_body m bd w))"
proof -
  have k: "map_of (meshes w) (fresh_body w) = None" by (rule fresh_not_key)
  have v: "\<And>m'. map_of (bodies w) m' \<noteq> Some (fresh_body w)" by (rule fresh_not_val)
  show ?thesis
    using assms k v
    unfolding bijection_inv_iff register_body_def world_addBody_def getBody_def Let_def
    by (auto simp: update_conv' distinct_update)
qed

lemma removeBody_inv: "bijection_inv w \<Longrightarrow> bijection_inv (removeBody m w)"
  unfolding bijection_inv_iff removeBody_def world_removeBody_def Let_def
  by (auto simp: delete_conv' distinct_delete simp del: map_of_eq_Some_iff split: option.splits)
    (metis option.inject)+

lemma freezeBody_maps:
  "bodies (freezeBody m w) = bodies w \<and> meshes (freezeBody m w) = meshes w \<and>
   world_bodies (freezeBody m w) = world_bodies w"
  by (simp add: freezeBody_def Let_def split: option.splits)

lemma unfreezeBody_maps:
  "bodies (unfreezeBody m a w) = bodies w \<and> meshes (unfreezeBody m a w) = meshes w \<and>
   world_bodies (unfreezeBody m a w) = world_bodies w"
  by (simp add: unfreezeBody_def Let_def split: option.splits)

lemma removeBody_getBody_None:
  "getBody w m = None \<Longrightarrow> getBody (removeBody x w) m = None"
  by (simp add: getBody_def removeBody_def world_removeBody_def Let_def delete_conv'
      split: option.splits)

lemma removeBody_self: "getBody (removeBody m w) m = None"
  by (simp add: getBody_def removeBody_def world_removeBody_def Let_def delete_conv'
      split: option.splits)

subsection \<open>The tick\<close>

lemma world_step_maps:
  "bodies (world_step advance dt t n w) = bodies w \<and>
   meshes (world_step advance dt t n w) = meshes w \<and>
   world_bodies (world_step advance dt t n w) = world_bodies w"
  by (simp add: world_step_def)

lemma sync_one_apply:
  "sync_one w e mh m = (if m = fst e then copy_pose (body_heap w (snd e)) (mh m) else mh m)"
  by (simp add: sync_one_def)

lemma fold_sync_unpaired:
  "m \<notin> fst ` set al \<Longrightarrow> fold (sync_one w) al mh m = mh m"
  by (induction al arbitrary: mh) (auto simp: sync_one_apply)

lemma fold_sync_paired:
  "distinct (map fst al) \<Longrightarrow> (m, b) \<in> set al \<Longrightarrow>
   fold (sync_one w) al mh m = copy_pose (body_heap w b) (mh m)"
proof (induction al arbitrary: mh)
  case Nil
  then show ?case by simp
next
  case (Cons e al)
  have step: "fold (sync_one w) (e # al) mh m = fold (sync_one w) al (sync_one w e mh) m"
    by simp
  show ?case
  proof (cases "e = (m, b)")
    case True
    then have "m \<notin> fst ` set al" using Cons.prems(1) by auto
    then have "fold (sync_one w) al (sync_one w e mh) m = sync_one w e mh m"
      by (rule fold_sync_unpaired)
    also have "\<dots> = copy_pose (body_heap w b) (mh m)"
      using True by (simp add: sync_one_apply)
    finally have "fold (sync_one w) al (sync_one w e mh) m = copy_pose (body_heap w b) (mh m)" .
    with step show ?thesis by (simp only:)
  next
    case False
    then have in_al: "(m, b) \<in> set al" using Cons.prems(2) by auto
    then have "fst e \<noteq> m" using Cons.prems(1) by (cases e) force
    then have same: "sync_one w e mh m = mh m" by (simp add: sync_one_apply)
    have "distinct (map fst al)" using Cons.prems(1) by simp
    then have "fold (sync_one w) al (sync_one w e mh) m
                 = copy_pose (body_heap w b) (sync_one w e mh m)"
      using in_al by (rule Cons.IH)
    with step same show ?thesis by (simp only:)
  qed
qed

subsection \<open>Candidates, the drag plane, removed blocks\<close>

lemma distinct_addDraggable:
  "distinct (draggableObjects c) \<Longrightarrow> distinct (draggableObjects (addDraggable object c))"
  by (simp add: addDraggable_def)

lemma distinct_removeDraggable:
  "distinct (draggableObjects c) \<Longrightarrow> distinct (draggableObjects (removeDraggable object c))"
  by (simp add: removeDraggable_def)

lemma distinct_apply_calls:
  "distinct (draggableObjects c) \<Longrightarrow> distinct (draggableObjects (fold apply_call cs c))"
proof (induction cs arbitrary: c)
  case Nil
  then show ?case by simp
next
  case (Cons a cs)
  have "distinct (draggableObjects (apply_call a c))"
    using Cons.prems by (cases a) (simp_all add: distinct_addDraggable distinct_removeDraggable)
  then show ?case using Cons.IH by simp
qed

lemma drag_to_floor: "vy (drag_to i off) \<ge> 0.5"
  by (simp add: drag_to_def set_y_def Let_def)

lemma removeBlock_keeps:
  "controls (removeBlock x s) = controls s \<and> mesh_heap (removeBlock x s) = mesh_heap s"
  by (simp add: removeBlock_def)

lemma fold_removeBlock_keeps:
  "controls (fold removeBlock xs s) = controls s \<and>
   mesh_heap (fold removeBlock xs s) = mesh_heap s"
  by (induction xs arbitrary: s) (simp_all add: removeBlock_keeps)

lemma removeBlock_getBody_None:
  "getBody (physics s) m = None \<Longrightarrow> getBody (physics (removeBlock x s)) m = None"
  by (simp add: removeBlock_def removeBody_getBody_None)

lemma fold_removeBlock_getBody_None:
  "getBody (physics s) m = None \<Longrightarrow> getBody (physics (fold removeBlock xs s)) m = None"
  by (induction xs arbitrary: s) (simp_all add: removeBlock_getBody_None)

lemma fold_removeBlock_unregisters:
  "m \<in> set xs \<Longrightarrow> m \<in> set (blocks s) \<Longrightarrow>
   getBody (physics (fold removeBlock xs s)) m = None"
proof (induction xs arbitrary: s)
  case Nil
  then show ?case by simp
next
  case (Cons x xs)
  show ?case
  proof (cases "x = m")
    case True
    then have "getBody (physics (removeBlock x s)) m = None"
      using Cons.prems(2) by (simp add: removeBlock_def removeBody_self)
    then show ?thesis by (simp add: fold_removeBlock_getBody_None)
  next
    case False
    then have "m \<in> set xs" using Cons.prems(1) by simp
    moreover have "m \<in> set (blocks (removeBlock x s))"
      using False Cons.prems(2) by (simp add: removeBlock_def)
    ultimately show ?thesis using Cons.IH by simp
  qed
qed

subsection \<open>Records, moves without a body, subtraction\<close>

lemma body_heap_upd_same: "w\<lparr>body_heap := h\<rparr> = w \<longleftrightarrow> h = body_heap w"
  by (cases w) auto

lemma onMouseMove_unregistered:
  assumes "dragging s m" and "getBody (physics s) m = None"
  shows "dragging (onMouseMove ev s) m \<and>
         physics (onMouseMove ev s) = physics s \<and>
         dragPlane (controls (onMouseMove ev s)) = dragPlane (controls s) \<and>
         offset (controls (onMouseMove ev s)) = offset (controls s) \<and>
         (\<forall>m'. m' \<noteq> m \<longrightarrow> mesh_heap (onMouseMove ev s) m' = mesh_heap s m') \<and>
         position (mesh_heap (onMouseMove ev s) m)
           = drag_to (snd (intersectPlane (cameraRay ev) (dragPlane (controls s)) (Vec3 0 0 0)))
               (offset (controls s))"
  using assms
  by (simp add: onMouseMove_def updateMousePosition_def sync_body_def dragging_def Let_def)

lemma pointer_moves_unregistered:
  assumes "dragging s m" and "getBody (physics s) m = None"
  shows "dragging (pointer_moves evs s) m \<and>
         physics (pointer_moves evs s) = physics s \<and>
         dragPlane (controls (pointer_moves evs s)) = dragPlane (controls s) \<and>
         offset (controls (pointer_moves evs s)) = offset (controls s) \<and>
         (\<forall>m'. m' \<noteq> m \<longrightarrow> mesh_heap (pointer_moves evs s) m' = mesh_heap s m')"
  using assms
proof (induction evs arbitrary: s)
  case Nil
  then show ?case by (simp add: pointer_moves_def)
next
  case (Cons ev evs)
  have one: "dragging (onMouseMove ev s) m \<and>
         physics (onMouseMove ev s) = physics s \<and>
         dragPlane (controls (onMouseMove ev s)) = dragPlane (controls s) \<and>
         offset (controls (onMouseMove ev s)) = offset (controls s) \<and>
         (\<forall>m'. m' \<noteq> m \<longrightarrow> mesh_heap (onMouseMove ev s) m' = mesh_heap s m')"
    using onMouseMove_unregistered [OF Cons.prems, of ev] by simp
  then have "getBody (physics (onMouseMove ev s)) m = None" using Cons.prems(2) by simp
  with one have "dragging (pointer_moves evs (onMouseMove ev s)) m \<and>
         physics (pointer_moves evs (onMouseMove ev s)) = physics (onMouseMove ev s) \<and>
         dragPlane (controls (pointer_moves evs (onMouseMove ev s)))
           = dragPlane (controls (onMouseMove ev s)) \<and>
         offset (controls (pointer_moves evs (onMouseMove ev s)))
           = offset (controls (onMouseMove ev s)) \<and>
         (\<forall>m'. m' \<noteq> m \<longrightarrow> mesh_heap (pointer_moves evs (onMouseMove ev s)) m'
            = mesh_heap (onMouseMove ev s) m')"
    using Cons.IH [of "onMouseMove ev s"] by simp
  moreover have "pointer_moves (ev # evs) s = pointer_moves evs (onMouseMove ev s)"
    by (simp add: pointer_moves_def)
  ultimately show ?case using one by simp
qed

lemma vsub_back:
  assumes "is_double (vx a)" and "is_double (vy a)" and "is_double (vz a)"
  shows "vsub p (Vec3 (vx p - vx a) (vy p - vy a) (vz p - vz a)) = a"
  using assms by (cases a) (simp add: vsub_def is_double_def)

section \<open>The body registry\<close>

text \<open>
  C1 (as amended). The two Maps of the registry are inverse to each other: under the
  invariant, \<open>getBody w m = Some b\<close> holds exactly when \<open>getMesh w b = Some m\<close>, so
  there is one body per mesh and one mesh per body. \<open>removeBody\<close>, \<open>freezeBody\<close> and
  \<open>unfreezeBody\<close> keep the invariant for every mesh; \<open>addBox\<close>, \<open>addSphere\<close> and
  \<open>addCylinder\<close> keep it when the mesh has no body yet, whether they return or throw.
\<close>

theorem registry_bijection_preserved:
  assumes "bijection_inv w"
  shows "(\<forall>x b. getBody w x = Some b \<longleftrightarrow> getMesh w b = Some x) \<and>
         (getBody w m = None \<longrightarrow>
            bijection_inv (after_add w (addBox mh m a w)) \<and>
            bijection_inv (after_add w (addSphere mh m a w)) \<and>
            bijection_inv (after_add w (addCylinder mh m a w))) \<and>
         bijection_inv (removeBody m' w) \<and>
         bijection_inv (freezeBody m' w) \<and>
         bijection_inv (unfreezeBody m' a w)"
proof -
  have "\<forall>x b. getBody w x = Some b \<longleftrightarrow> getMesh w b = Some x"
    using assms by (simp add: bijection_inv_iff getBody_def getMesh_def)
  moreover have "bijection_inv (freezeBody m' w)"
    using assms freezeBody_maps [of m' w] by (simp add: bijection_inv_iff)
  moreover have "bijection_inv (unfreezeBody m' a w)"
    using assms unfreezeBody_maps [of m' a w] by (simp add: bijection_inv_iff)
  moreover have "bijection_inv (removeBody m' w)"
    using assms by (rule removeBody_inv)
  moreover have "bijection_inv (after_add w (addBox mh m a w)) \<and>
      bijection_inv (after_add w (addSphere mh m a w)) \<and>
      bijection_inv (after_add w (addCylinder mh m a w))" if "getBody w m = None"
    using assms that register_body_inv [OF assms that]
    by (simp add: addBox_def addSphere_def addCylinder_def after_add_def Let_def
        split: prod.splits) (metis fst_conv)
  ultimately show ?thesis by blast
qed

theorem registry_bijection_preserved_witness:
  "bijection_inv one_box \<and> getBody one_box 0 = Some 2 \<and> getMesh one_box 2 = Some 0 \<and>
   getBody one_box 1 = None \<and>
   bijection_inv (after_add one_box (addBox example_meshes 1 (Some 1) one_box)) \<and>
   bijection_inv (after_add one_box (addSphere example_meshes 1 (Some 1) one_box)) \<and>
   bijection_inv (after_add one_box (addCylinder example_meshes 1 (Some 1) one_box)) \<and>
   bijection_inv (removeBody 0 one_box) \<and>
   bijection_inv (freezeBody 0 one_box) \<and>
   bijection_inv (unfreezeBody 0 (Some 1) one_box)"
proof -
  have h: "bijection_inv one_box" by (simp add: registry_simps)
  have n: "getBody one_box 1 = None" by (simp add: registry_simps)
  have g: "getBody one_box 0 = Some 2 \<and> getMesh one_box 2 = Some 0"
    by (simp add: registry_simps)
  show ?thesis
    using h n g registry_bijection_preserved [OF h, of 1 example_meshes "Some 1" 0] by simp
qed

text \<open>
  C1 as stated fails: \<open>addBox\<close> does not look whether the mesh has a body. Registering
  mesh 0 a second time maps it to the new body 3, while body 2 stays registered for mesh 0
  in the reverse Map: \<open>getMesh\<close> of body 2 is mesh 0, whose body is 3.
\<close>

theorem registry_bijection_counterexample:
  "bijection_inv one_box \<and>
   getMesh (after_add one_box (addBox example_meshes 0 (Some 1) one_box)) 2 = Some 0 \<and>
   getBody (after_add one_box (addBox example_meshes 0 (Some 1) one_box)) 0 = Some 3 \<and>
   \<not> bijection_inv (after_add one_box (addBox example_meshes 0 (Some 1) one_box))"
  by (simp add: registry_simps)

text \<open>
  C4 (as amended). \<open>addBox\<close> has no duplicate check and does not fail because the mesh
  has a body. For a mesh whose geometry has a \<open>parameters\<close> object, whether the mesh has
  a body or not, it returns a new body (one that is neither in the world nor a key of the
  reverse Map) with the given mass at the pose of the mesh, appends it to the bodies of
  the world, maps the mesh to it and it to the mesh; the entries of all other bodies in
  the reverse Map stay. Its one failure is the TypeError for a geometry without a
  \<open>parameters\<close> object, and then the registry is as it was.
\<close>

theorem addBox_no_duplicate_check:
  "(has_parameters (geometry (mh m)) \<longrightarrow>
      (\<exists>b. added_body (addBox mh m a w) = Some b \<and>
           b \<notin> set (world_bodies w) \<and>
           getMesh w b = None \<and>
           world_bodies (after_add w (addBox mh m a w)) = world_bodies w @ [b] \<and>
           getBody (after_add w (addBox mh m a w)) m = Some b \<and>
           getMesh (after_add w (addBox mh m a w)) b = Some m \<and>
           mass (body_heap (after_add w (addBox mh m a w)) b) = arg_or 1 a \<and>
           body_position (body_heap (after_add w (addBox mh m a w)) b) = position (mh m) \<and>
           body_quaternion (body_heap (after_add w (addBox mh m a w)) b) = quaternion (mh m) \<and>
           (\<forall>b'. b' \<noteq> b \<longrightarrow> getMesh (after_add w (addBox mh m a w)) b' = getMesh w b'))) \<and>
   (\<not> has_parameters (geometry (mh m)) \<longrightarrow>
      addBox mh m a w = Inl TypeError \<and> after_add w (addBox mh m a w) = w)"
proof -
  have "\<exists>b. added_body (addBox mh m a w) = Some b \<and>
           b \<notin> set (world_bodies w) \<and>
           getMesh w b = None \<and>
           world_bodies (after_add w (addBox mh m a w)) = world_bodies w @ [b] \<and>
           getBody (after_add w (addBox mh m a w)) m = Some b \<and>
           getMesh (after_add w (addBox mh m a w)) b = Some m \<and>
           mass (body_heap (after_add w (addBox mh m a w)) b) = arg_or 1 a \<and>
           body_position (body_heap (after_add w (addBox mh m a w)) b) = position (mh m) \<and>
           body_quaternion (body_heap (after_add w (addBox mh m a w)) b) = quaternion (mh m) \<and>
           (\<forall>b'. b' \<noteq> b \<longrightarrow> getMesh (after_add w (addBox mh m a w)) b' = getMesh w b')"
    if p: "has_parameters (geometry (mh m))"
  proof (intro exI [of _ "fresh_body w"])
    let ?bd = "new_Body (arg_or 1 a)
       (Box (half (param_width (geometry (mh m)))) (half (param_height (geometry (mh m))))
          (half (param_depth (geometry (mh m))))) (position (mh m)) (quaternion (mh m))"
    have r: "addBox mh m a w = Inr (register_body m ?bd w)"
      using p by (simp add: addBox_def Let_def)
    obtain w' b where wb: "register_body m ?bd w = (w', b)" by (cases "register_body m ?bd w")
    have e: "b = fresh_body w \<and>
       world_bodies w' = world_bodies w @ [fresh_body w] \<and>
       bodies w' = AList.update m (fresh_body w) (bodies w) \<and>
       meshes w' = AList.update (fresh_body w) m (meshes w) \<and>
       body_heap w' = (body_heap w)(fresh_body w := ?bd)"
      using register_body_effect [of m ?bd w] wb by simp
    have aa: "after_add w (addBox mh m a w) = w'" by (simp add: r wb after_add_def)
    have ab: "added_body (addBox mh m a w) = Some b" by (simp add: r wb added_body_def)
    show "added_body (addBox mh m a w) = Some (fresh_body w) \<and>
           fresh_body w \<notin> set (world_bodies w) \<and>
           getMesh w (fresh_body w) = None \<and>
           world_bodies (after_add w (addBox mh m a w)) = world_bodies w @ [fresh_body w] \<and>
           getBody (after_add w (addBox mh m a w)) m = Some (fresh_body w) \<and>
           getMesh (after_add w (addBox mh m a w)) (fresh_body w) = Some m \<and>
           mass (body_heap (after_add w (addBox mh m a w)) (fresh_body w)) = arg_or 1 a \<and>
           body_position (body_heap (after_add w (addBox mh m a w)) (fresh_body w)) = position (mh m) \<and>
           body_quaternion (body_heap (after_add w (addBox mh m a w)) (fresh_body w)) = quaternion (mh m) \<and>
           (\<forall>b'. b' \<noteq> fresh_body w \<longrightarrow> getMesh (after_add w (addBox mh m a w)) b' = getMesh w b')"
      unfolding aa ab
      using e fresh_not_world [of w] fresh_not_key [of w]
      by (simp add: getMesh_def getBody_def new_Body_def update_conv')
  qed
  moreover have "addBox mh m a w = Inl TypeError \<and> after_add w (addBox mh m a w) = w"
    if "\<not> has_parameters (geometry (mh m))"
    using that by (simp add: addBox_def after_add_def Let_def)
  ultimately show ?thesis by blast
qed

theorem addBox_no_duplicate_check_witness:
  "has_parameters (geometry (example_meshes 0)) \<and>
   getBody one_box 0 = Some 2 \<and>
   added_body (addBox example_meshes 0 None one_box) = Some 3 \<and>
   getBody (after_add one_box (addBox example_meshes 0 None one_box)) 0 = Some 3 \<and>
   getMesh (after_add one_box (addBox example_meshes 0 None one_box)) 3 = Some 0 \<and>
   getMesh (after_add one_box (addBox example_meshes 0 None one_box)) 2 = Some 0 \<and>
   mass (body_heap (after_add one_box (addBox example_meshes 0 None one_box)) 3) = 1 \<and>
   \<not> has_parameters (geometry (bare_meshes 0)) \<and>
   addBox bare_meshes 0 None one_box = Inl TypeError"
proof -
  have p: "has_parameters (geometry (example_meshes 0))"
    by (simp add: example_meshes_def cube_at_def)
  have q: "\<not> has_parameters (geometry (bare_meshes 0))"
    by (simp add: bare_meshes_def bare_at_def)
  have a: "added_body (addBox example_meshes 0 None one_box) = Some 3"
    by (simp add: registry_simps)
  have b: "getBody one_box 0 = Some 2 \<and> getMesh one_box 2 = Some 0"
    by (simp add: registry_simps)
  show ?thesis
    using p q a b addBox_no_duplicate_check [of example_meshes 0 None one_box]
      addBox_no_duplicate_check [of bare_meshes 0 None one_box]
    by (auto simp: arg_or_def)
qed

text \<open>
  C4 as stated fails: mesh 0 has body 2, and \<open>addBox\<close> on it returns a new body 3, adds
  it to the world and maps the mesh to it.
\<close>

theorem addBox_duplicate_counterexample:
  "getBody one_box 0 = Some 2 \<and>
   added_body (addBox example_meshes 0 (Some 1) one_box) = Some 3 \<and>
   world_bodies one_box = [1, 2] \<and>
   world_bodies (after_add one_box (addBox example_meshes 0 (Some 1) one_box)) = [1, 2, 3] \<and>
   getBody (after_add one_box (addBox example_meshes 0 (Some 1) one_box)) 0 = Some 3 \<and>
   meshes (after_add one_box (addBox example_meshes 0 (Some 1) one_box)) = [(2, 0), (3, 0)]"
  by (simp add: registry_simps)

text \<open>
  C5 (as amended). For a mesh with a registered body, \<open>unfreezeBody\<close> does not fail,
  whatever the mass \<open>x\<close>, positive or not: it sets the mass of the body to \<open>x\<close>, its
  inverse mass to the rounded \<open>1 / x\<close> for a positive \<open>x\<close> and to 0 otherwise, and
  wakes it. The velocities and the position of the body, every other body, both Maps and
  the bodies of the world are unchanged. The registry is the same after the call exactly
  when the body had that mass and that inverse mass and was awake before.
\<close>

theorem unfreezeBody_any_mass:
  assumes "getBody w m = Some b"
  shows "mass (body_heap (unfreezeBody m (Some x) w) b) = x \<and>
         invMass (body_heap (unfreezeBody m (Some x) w) b)
           = (if x > 0 then fl64 (1 / x) else 0) \<and>
         sleepState (body_heap (unfreezeBody m (Some x) w) b) = AWAKE \<and>
         velocity (body_heap (unfreezeBody m (Some x) w) b) = velocity (body_heap w b) \<and>
         angularVelocity (body_heap (unfreezeBody m (Some x) w) b)
           = angularVelocity (body_heap w b) \<and>
         body_position (body_heap (unfreezeBody m (Some x) w) b)
           = body_position (body_heap w b) \<and>
         bodies (unfreezeBody m (Some x) w) = bodies w \<and>
         meshes (unfreezeBody m (Some x) w) = meshes w \<and>
         world_bodies (unfreezeBody m (Some x) w) = world_bodies w \<and>
         (\<forall>b'. b' \<noteq> b \<longrightarrow> body_heap (unfreezeBody m (Some x) w) b' = body_heap w b') \<and>
         (unfreezeBody m (Some x) w = w \<longleftrightarrow>
            mass (body_heap w b) = x \<and>
            invMass (body_heap w b) = (if x > 0 then fl64 (1 / x) else 0) \<and>
            sleepState (body_heap w b) = AWAKE)"
proof -
  let ?bd = "body_heap w b"
  let ?bd' = "?bd\<lparr>mass := x, invMass := (if x > 0 then fl64 (1 / x) else 0), sleepState := AWAKE\<rparr>"
  have u: "unfreezeBody m (Some x) w = w\<lparr>body_heap := (body_heap w)(b := ?bd')\<rparr>"
    using assms
    by (simp add: unfreezeBody_def getBody_def Let_def updateMassProperties_def wakeUp_def
        arg_or_def)
  have "(body_heap w)(b := ?bd') = body_heap w \<longleftrightarrow> ?bd' = ?bd"
    by (metis fun_upd_same fun_upd_triv)
  moreover have "?bd' = ?bd \<longleftrightarrow>
      mass ?bd = x \<and> invMass ?bd = (if x > 0 then fl64 (1 / x) else 0) \<and> sleepState ?bd = AWAKE"
    by (cases ?bd) auto
  ultimately have "unfreezeBody m (Some x) w = w \<longleftrightarrow>
      mass ?bd = x \<and> invMass ?bd = (if x > 0 then fl64 (1 / x) else 0) \<and> sleepState ?bd = AWAKE"
    unfolding u body_heap_upd_same by simp
  then show ?thesis unfolding u by simp
qed

theorem unfreezeBody_any_mass_witness:
  "getBody one_box 0 = Some 2 \<and>
   mass (body_heap (unfreezeBody 0 (Some (- 3)) one_box) 2) = - 3 \<and>
   invMass (body_heap (unfreezeBody 0 (Some (- 3)) one_box) 2) = 0 \<and>
   bodies (unfreezeBody 0 (Some (- 3)) one_box) = bodies one_box \<and>
   meshes (unfreezeBody 0 (Some (- 3)) one_box) = meshes one_box \<and>
   unfreezeBody 0 (Some 0) (freezeBody 0 one_box) = freezeBody 0 one_box"
proof -
  have h: "getBody one_box 0 = Some 2" by (simp add: registry_simps)
  have f: "getBody (freezeBody 0 one_box) 0 = Some 2" by (simp add: registry_simps)
  have g: "mass (body_heap (freezeBody 0 one_box) 2) = 0 \<and>
           invMass (body_heap (freezeBody 0 one_box) 2) = 0 \<and>
           sleepState (body_heap (freezeBody 0 one_box) 2) = AWAKE"
    by (simp add: registry_simps)
  show ?thesis
    using h g unfreezeBody_any_mass [OF h, of "- 3"] unfreezeBody_any_mass [OF f, of 0]
    by simp
qed

text \<open>
  C5 as stated fails: \<open>unfreezeBody\<close> with mass 0 on the registered mesh 0 does not fail
  and changes the registry: the mass of its body goes from 1 to 0.
\<close>

theorem unfreezeBody_zero_counterexample:
  "getBody one_box 0 = Some 2 \<and>
   mass (body_heap one_box 2) = 1 \<and>
   mass (body_heap (unfreezeBody 0 (Some 0) one_box) 2) = 0 \<and>
   unfreezeBody 0 (Some 0) one_box \<noteq> one_box"
proof -
  have a: "getBody one_box 0 = Some 2" by (simp add: registry_simps)
  have b: "mass (body_heap one_box 2) = 1" by (simp add: registry_simps)
  have c: "mass (body_heap (unfreezeBody 0 (Some 0) one_box) 2) = 0"
    by (simp add: registry_simps)
  have "unfreezeBody 0 (Some 0) one_box \<noteq> one_box"
  proof
    assume "unfreezeBody 0 (Some 0) one_box = one_box"
    then have "mass (body_heap (unfreezeBody 0 (Some 0) one_box) 2) = mass (body_heap one_box 2)"
      by simp
    then show False using b c by simp
  qed
  then show ?thesis using a b c by simp
qed

text \<open>
  C6. For a mesh with a registered body, \<open>freezeBody\<close> sets the mass of the body to zero
  and its linear and angular velocity to zero, and leaves its position; one step of the
  world right after it, alone or inside \<open>update\<close>, leaves the position of the body where
  it was, whatever the solver does with the bodies that have a mass.
\<close>

theorem freeze_then_step:
  assumes "getBody w m = Some b"
  shows "mass (body_heap (freezeBody m w) b) = 0 \<and>
         velocity (body_heap (freezeBody m w) b) = Vec3 0 0 0 \<and>
         angularVelocity (body_heap (freezeBody m w) b) = Vec3 0 0 0 \<and>
         body_position (body_heap (freezeBody m w) b) = body_position (body_heap w b) \<and>
         body_position (body_heap (world_step advance dt t n (freezeBody m w)) b)
           = body_position (body_heap w b) \<and>
         body_position (body_heap (snd (update advance deltaTime (mh, freezeBody m w))) b)
           = body_position (body_heap w b)"
  using assms
  by (simp add: freezeBody_def getBody_def Let_def updateMassProperties_def world_step_def
      update_def)

theorem freeze_then_step_witness:
  "getBody one_box 0 = Some 2 \<and>
   mass (body_heap (freezeBody 0 one_box) 2) = 0 \<and>
   velocity (body_heap (freezeBody 0 one_box) 2) = Vec3 0 0 0 \<and>
   body_position (body_heap (world_step falling (fl64 (1 / 60)) (fl64 (1 / 60)) 3
      (freezeBody 0 one_box)) 2) = Vec3 0 5 0 \<and>
   body_position (body_heap (world_step falling (fl64 (1 / 60)) (fl64 (1 / 60)) 3 one_box) 2)
     \<noteq> Vec3 0 5 0"
proof -
  have h: "getBody one_box 0 = Some 2" by (simp add: registry_simps)
  have p: "body_position (body_heap one_box 2) = Vec3 0 5 0" by (simp add: registry_simps)
  have q: "body_position (body_heap (world_step falling (fl64 (1 / 60)) (fl64 (1 / 60)) 3
      one_box) 2) \<noteq> Vec3 0 5 0"
    by (simp add: registry_simps world_step_def falling_def vsub_def)
  show ?thesis
    using h p q freeze_then_step [OF h, of falling "fl64 (1 / 60)" "fl64 (1 / 60)" 3] by simp
qed

text \<open>
  C3 (as amended). On every tick \<open>update\<close> copies the pose of the body, as it is after
  the step of the world, onto the mesh of every pairing, frozen or not; for a pairing
  whose body has mass zero this is the pose the body had before the step. A mesh without
  a body is left as it is.
\<close>

theorem update_syncs_every_pairing:
  assumes "is_Map (bodies w)"
  shows "(getBody w m = Some b \<longrightarrow>
            position (fst (update advance deltaTime (mh, w)) m)
              = body_position (body_heap (snd (update advance deltaTime (mh, w))) b) \<and>
            quaternion (fst (update advance deltaTime (mh, w)) m)
              = body_quaternion (body_heap (snd (update advance deltaTime (mh, w))) b)) \<and>
         (getBody w m = Some b \<and> mass (body_heap w b) = 0 \<longrightarrow>
            position (fst (update advance deltaTime (mh, w)) m)
              = body_position (body_heap w b) \<and>
            quaternion (fst (update advance deltaTime (mh, w)) m)
              = body_quaternion (body_heap w b)) \<and>
         (getBody w m = None \<longrightarrow> fst (update advance deltaTime (mh, w)) m = mh m)"
proof -
  let ?w = "world_step advance (fl64 (1 / 60)) deltaTime 3 w"
  have maps: "bodies ?w = bodies w" by (simp add: world_step_maps)
  have d: "distinct (map fst (bodies w))" using assms by (simp add: is_Map_def)
  have paired: "fst (update advance deltaTime (mh, w)) m = copy_pose (body_heap ?w b) (mh m)"
    if "getBody w m = Some b"
  proof -
    have "(m, b) \<in> set (bodies w)" using that d by (simp add: getBody_def)
    then show ?thesis
      using d by (simp add: update_def sync_meshes_def Let_def maps fold_sync_paired)
  qed
  have unpaired: "fst (update advance deltaTime (mh, w)) m = mh m" if "getBody w m = None"
  proof -
    have "m \<notin> fst ` set (bodies w)" using that by (simp add: getBody_def map_of_eq_None_iff)
    then show ?thesis
      by (simp add: update_def sync_meshes_def Let_def maps fold_sync_unpaired)
  qed
  have frozen: "body_heap ?w b = body_heap w b" if "mass (body_heap w b) = 0"
    using that by (simp add: world_step_def)
  have snd_eq: "snd (update advance deltaTime (mh, w)) = ?w" by (simp add: update_def Let_def)
  show ?thesis
    using paired unpaired frozen by (auto simp: snd_eq copy_pose_def)
qed

theorem update_syncs_every_pairing_witness:
  "is_Map (bodies (freezeBody 0 one_box)) \<and>
   getBody (freezeBody 0 one_box) 0 = Some 2 \<and>
   mass (body_heap (freezeBody 0 one_box) 2) = 0 \<and>
   getBody (freezeBody 0 one_box) 1 = None \<and>
   position (fst (update falling (fl64 (1 / 60)) (moved_meshes, freezeBody 0 one_box)) 0)
     = body_position (body_heap (freezeBody 0 one_box) 2) \<and>
   fst (update falling (fl64 (1 / 60)) (moved_meshes, freezeBody 0 one_box)) 1 = moved_meshes 1"
proof -
  have a: "is_Map (bodies (freezeBody 0 one_box))" by (simp add: registry_simps)
  have b: "getBody (freezeBody 0 one_box) 0 = Some 2" by (simp add: registry_simps)
  have c: "mass (body_heap (freezeBody 0 one_box) 2) = 0" by (simp add: registry_simps)
  have d: "getBody (freezeBody 0 one_box) 1 = None" by (simp add: registry_simps)
  show ?thesis
    using a b c d
      update_syncs_every_pairing [OF a, of 0 2 falling "fl64 (1 / 60)" moved_meshes]
      update_syncs_every_pairing [OF a, of 1 2 falling "fl64 (1 / 60)" moved_meshes]
    by blast
qed

text \<open>
  C3 as stated fails: the pairing of mesh 0 is frozen (its body 2 has mass zero and rests
  at (0, 5, 0)), the mesh stands at (3, 5, 0), and \<open>update\<close> puts the mesh at the
  position of the body all the same.
\<close>

theorem update_frozen_counterexample:
  "getBody (freezeBody 0 one_box) 0 = Some 2 \<and>
   mass (body_heap (freezeBody 0 one_box) 2) = 0 \<and>
   position (moved_meshes 0) = Vec3 3 5 0 \<and>
   position (fst (update falling (fl64 (1 / 60)) (moved_meshes, freezeBody 0 one_box)) 0)
     = Vec3 0 5 0 \<and>
   position (fst (update falling (fl64 (1 / 60)) (moved_meshes, freezeBody 0 one_box)) 0)
     \<noteq> position (moved_meshes 0)"
  by (simp add: registry_simps update_def world_step_def sync_meshes_def sync_one_def
      copy_pose_def moved_meshes_def)

section \<open>The drag interactor\<close>

text \<open>
  C2. During a drag, a pointer-move whose camera ray is parallel to the drag plane and
  does not meet it is meant to leave the mesh where it is. The handler does not: the cube
  at (2, 0.5, 0) is grabbed at its top, so the drag plane is y = 1 and the offset
  (0, 0.5, 0). The next pointer ray is level at height 5, and \<open>intersectPlane\<close> returns
  \<open>null\<close>. The handler tests the target vector instead of the value returned, goes on
  with the target as it was constructed, (0, 0, 0), and moves the cube to (0, 0.5, 0).
\<close>

theorem parallel_ray_moves_shape:
  "dragging grabbed_cube 0 \<and>
   position (mesh_heap grabbed_cube 0) = Vec3 2 0.5 0 \<and>
   vdot (normal (dragPlane (controls grabbed_cube))) (direction level_ray) = 0 \<and>
   fst (intersectPlane level_ray (dragPlane (controls grabbed_cube)) (Vec3 0 0 0)) = None \<and>
   position (mesh_heap (onMouseMove (pointer level_ray []) grabbed_cube) 0) = Vec3 0 0.5 0 \<and>
   position (mesh_heap (onMouseMove (pointer level_ray []) grabbed_cube) 0)
     \<noteq> position (mesh_heap grabbed_cube 0)"
  by (simp add: drag_simps registry_simps)

text \<open>
  C8 (as amended). A mesh \<open>m\<close> at position \<open>o\<close> is grabbed by a pointer event whose
  nearest hit is the point \<open>p\<close>; the offset is then \<open>p - o\<close> as the doubles give it,
  and the drag plane the horizontal plane through \<open>p\<close>. A pointer-move with the same
  event leaves the mesh exactly where it was, provided that the intersection of the
  camera ray with that plane is computed as \<open>p\<close> itself, that the subtraction \<open>p - o\<close>
  was exact, the coordinates of \<open>o\<close> being doubles, and that the mesh is at height 0.5
  or more.
\<close>

theorem regrab_round_trip:
  assumes "intersects ev = (m, p) # rest"
    and "fst (intersectPlane (cameraRay ev) (setFromNormalAndCoplanarPoint (Vec3 0 1 0) p)
           (Vec3 0 0 0)) = Some p"
    and "vsub p (position (mesh_heap s m))
           = Vec3 (vx p - vx (position (mesh_heap s m))) (vy p - vy (position (mesh_heap s m)))
               (vz p - vz (position (mesh_heap s m)))"
    and "is_double (vx (position (mesh_heap s m)))"
    and "is_double (vy (position (mesh_heap s m)))"
    and "is_double (vz (position (mesh_heap s m)))"
    and "vy (position (mesh_heap s m)) \<ge> 0.5"
  shows "dragging (onMouseDown ev s) m \<and>
         offset (controls (onMouseDown ev s)) = vsub p (position (mesh_heap s m)) \<and>
         position (mesh_heap (onMouseDown ev s) m) = position (mesh_heap s m) \<and>
         position (mesh_heap (onMouseMove ev (onMouseDown ev s)) m) = position (mesh_heap s m)"
proof -
  let ?s1 = "onMouseDown ev s"
  let ?o = "position (mesh_heap s m)"
  have c: "isDragging (controls ?s1) \<and> selectedObject (controls ?s1) = Some m \<and>
           dragPlane (controls ?s1) = setFromNormalAndCoplanarPoint (Vec3 0 1 0) p \<and>
           offset (controls ?s1) = vsub p ?o"
    using assms(1) by (simp add: onMouseDown_def updateMousePosition_def Let_def)
  have g: "position (mesh_heap ?s1 m) = ?o"
    using assms(1) by (simp add: onMouseDown_def highlightObject_def Let_def)
  have "snd (intersectPlane (cameraRay ev) (setFromNormalAndCoplanarPoint (Vec3 0 1 0) p)
           (Vec3 0 0 0)) = p"
    using assms(2) by (auto simp: intersectPlane_def Let_def split: option.splits)
  then have i: "snd (intersectPlane (cameraRay ev) (dragPlane (controls ?s1)) (Vec3 0 0 0)) = p"
    using c by simp
  have mv: "position (mesh_heap (onMouseMove ev ?s1) m) = drag_to p (vsub p ?o)"
    using c i by (simp add: onMouseMove_def updateMousePosition_def Let_def)
  have "vsub p (vsub p ?o) = ?o"
    unfolding assms(3) using assms(4,5,6) by (rule vsub_back)
  then have "drag_to p (vsub p ?o) = ?o"
    using assms(7) by (simp add: drag_to_def Let_def)
  then show ?thesis using mv c g by (simp add: dragging_def)
qed

theorem regrab_round_trip_witness:
  "intersects (pointer top_ray [(0, Vec3 2 1 0)]) = [(0, Vec3 2 1 0)] \<and>
   fst (intersectPlane top_ray (setFromNormalAndCoplanarPoint (Vec3 0 1 0) (Vec3 2 1 0))
      (Vec3 0 0 0)) = Some (Vec3 2 1 0) \<and>
   position (mesh_heap (one_block_app (cube_at (Vec3 2 0.5 0))) 0) = Vec3 2 0.5 0 \<and>
   vsub (Vec3 2 1 0) (Vec3 2 0.5 0) = Vec3 0 0.5 0 \<and>
   is_double 2 \<and> is_double 0.5 \<and> is_double 0 \<and>
   position (mesh_heap (onMouseMove (pointer top_ray [(0, Vec3 2 1 0)]) grabbed_top) 0)
     = Vec3 2 0.5 0"
proof -
  let ?ev = "pointer top_ray [(0, Vec3 2 1 0)]"
  let ?s = "one_block_app (cube_at (Vec3 2 0.5 0))"
  have f: "position (mesh_heap ?s 0) = Vec3 2 0.5 0" by (simp add: one_block_app_def cube_at_def)
  have a: "intersects ?ev = (0, Vec3 2 1 0) # []" by (simp add: pointer_def)
  have r: "cameraRay ?ev = top_ray" by (simp add: pointer_def)
  have b: "fst (intersectPlane (cameraRay ?ev)
      (setFromNormalAndCoplanarPoint (Vec3 0 1 0) (Vec3 2 1 0)) (Vec3 0 0 0)) = Some (Vec3 2 1 0)"
    by (simp add: drag_simps registry_simps)
  have v: "vsub (Vec3 2 1 0) (Vec3 2 0.5 0) = Vec3 0 0.5 0" by (simp add: vsub_def fl64_small)
  have c: "vsub (Vec3 2 1 0) (position (mesh_heap ?s 0))
     = Vec3 (vx (Vec3 2 1 0) - vx (position (mesh_heap ?s 0)))
         (vy (Vec3 2 1 0) - vy (position (mesh_heap ?s 0)))
         (vz (Vec3 2 1 0) - vz (position (mesh_heap ?s 0)))"
    unfolding f by (simp add: vsub_def fl64_small)
  have d: "is_double 2 \<and> is_double 0.5 \<and> is_double 0" by (simp add: is_double_def fl64_small)
  have d1: "is_double (vx (position (mesh_heap ?s 0)))" unfolding f using d by simp
  have d2: "is_double (vy (position (mesh_heap ?s 0)))" unfolding f using d by simp
  have d3: "is_double (vz (position (mesh_heap ?s 0)))" unfolding f using d by simp
  have e: "vy (position (mesh_heap ?s 0)) \<ge> 0.5" unfolding f by simp
  show ?thesis
    using regrab_round_trip [OF a b c d1 d2 d3 e] a b v d f r by (simp add: grabbed_top_def)
qed

text \<open>
  C8 as stated fails, in three ways. The flat block of the house foundation lies at height
  0.125: grabbed at its top, a pointer-move with the same event computes the position it
  has and then lifts it to the minimum height 0.5. For a horizontal ray, the cube at
  (2, 0.5, 0) grabbed at its front, the ray lies in the drag plane, the intersection is
  the origin of the ray and not the point that was hit, and the cube jumps to
  (2, 0.5, 2.5). And the subtraction rounds: a cube at x = 0.1 grabbed at x = 0.5 gets the
  offset 0.4, and the move puts it at 0.5 - 0.4, which is less than 0.1 by \<open>1 / 2 ^ 55\<close>.
\<close>

theorem regrab_counterexample:
  "dragging grabbed_flat 0 \<and>
   fst (intersectPlane flat_ray (dragPlane (controls grabbed_flat)) (Vec3 0 0 0))
     = Some (Vec3 0 0.25 0) \<and>
   offset (controls grabbed_flat) = Vec3 0 0.125 0 \<and>
   position (mesh_heap grabbed_flat 0) = Vec3 0 0.125 0 \<and>
   position (mesh_heap (onMouseMove (pointer flat_ray [(0, Vec3 0 0.25 0)]) grabbed_flat) 0)
     = Vec3 0 0.5 0 \<and>
   dragging grabbed_side 0 \<and>
   position (mesh_heap grabbed_side 0) = Vec3 2 0.5 0 \<and>
   position (mesh_heap (onMouseMove (pointer side_ray [(0, Vec3 2 0.75 0.5)]) grabbed_side) 0)
     = Vec3 2 0.5 2.5 \<and>
   dragging grabbed_tenth 0 \<and>
   fst (intersectPlane tenth_ray (dragPlane (controls grabbed_tenth)) (Vec3 0 0 0))
     = Some (Vec3 0.5 1 0) \<and>
   position (mesh_heap grabbed_tenth 0) = Vec3 tenth 0.5 0 \<and>
   position (mesh_heap (onMouseMove (pointer tenth_ray [(0, Vec3 0.5 1 0)]) grabbed_tenth) 0)
     = Vec3 (900719925474099 / 9007199254740992) 0.5 0 \<and>
   tenth - 900719925474099 / 9007199254740992 = 1 / 2 ^ 55"
proof -
  have flat: "dragging grabbed_flat 0 \<and>
   fst (intersectPlane flat_ray (dragPlane (controls grabbed_flat)) (Vec3 0 0 0))
     = Some (Vec3 0 0.25 0) \<and>
   offset (controls grabbed_flat) = Vec3 0 0.125 0 \<and>
   position (mesh_heap grabbed_flat 0) = Vec3 0 0.125 0 \<and>
   position (mesh_heap (onMouseMove (pointer flat_ray [(0, Vec3 0 0.25 0)]) grabbed_flat) 0)
     = Vec3 0 0.5 0"
    by (simp add: drag_simps registry_simps)
  have side: "dragging grabbed_side 0 \<and>
   position (mesh_heap grabbed_side 0) = Vec3 2 0.5 0 \<and>
   position (mesh_heap (onMouseMove (pointer side_ray [(0, Vec3 2 0.75 0.5)]) grabbed_side) 0)
     = Vec3 2 0.5 2.5"
    by (simp add: drag_simps registry_simps)
  have t: "dragging grabbed_tenth 0 \<and>
   fst (intersectPlane tenth_ray (dragPlane (controls grabbed_tenth)) (Vec3 0 0 0))
     = Some (Vec3 0.5 1 0) \<and>
   position (mesh_heap grabbed_tenth 0) = Vec3 tenth 0.5 0 \<and>
   position (mesh_heap (onMouseMove (pointer tenth_ray [(0, Vec3 0.5 1 0)]) grabbed_tenth) 0)
     = Vec3 (900719925474099 / 9007199254740992) 0.5 0"
    by (simp add: drag_simps registry_simps half_minus_tenth half_minus_four_tenths)
  have "tenth - 900719925474099 / 9007199254740992 = 1 / 2 ^ 55" by (simp add: tenth_def)
  then show ?thesis using flat side t by simp
qed

text \<open>
  C9. While a mesh is dragged, after every pointer-move its height is at least the floor
  minimum 0.5, and so is the height of its body when it has one.
\<close>

theorem drag_keeps_above_floor:
  assumes "dragging s m"
  shows "vy (position (mesh_heap (onMouseMove ev s) m)) \<ge> 0.5 \<and>
         (\<forall>b. getBody (physics s) m = Some b \<longrightarrow>
            vy (body_position (body_heap (physics (onMouseMove ev s)) b)) \<ge> 0.5)"
  using assms drag_to_floor
  by (simp add: onMouseMove_def updateMousePosition_def sync_body_def dragging_def Let_def)

theorem drag_keeps_above_floor_witness:
  "dragging grabbed_flat 0 \<and>
   getBody (physics grabbed_flat) 0 = Some 2 \<and>
   vy (position (mesh_heap grabbed_flat 0)) = 0.125 \<and>
   vy (position (mesh_heap (onMouseMove (pointer aside_ray []) grabbed_flat) 0)) \<ge> 0.5 \<and>
   vy (body_position (body_heap (physics (onMouseMove (pointer aside_ray []) grabbed_flat)) 2))
     \<ge> 0.5"
proof -
  have a: "dragging grabbed_flat 0" by (simp add: drag_simps)
  have b: "getBody (physics grabbed_flat) 0 = Some 2" by (simp add: drag_simps registry_simps)
  have c: "vy (position (mesh_heap grabbed_flat 0)) = 0.125" by (simp add: drag_simps)
  show ?thesis
    using a b c drag_keeps_above_floor [OF a, of "pointer aside_ray []"] by simp
qed

text \<open>
  C7 (as amended). When the grabbed mesh is removed by \<open>clearAllBlocks\<close> during a drag,
  the interactor is not told: it is still in its Dragging state with the removed mesh
  grabbed, and it stays so through every sequence of pointer-moves after that. The mesh
  has no body any more. None of these pointer-moves raises an error or changes the
  registry, since the body they look up is absent, and none touches another mesh; but
  each still writes the position of the removed mesh: for a ray that meets the drag
  plane, the point where it does minus the offset, at the minimum height at least.
\<close>

theorem removed_while_dragging:
  assumes "dragging s m" and "m \<in> set (blocks s)"
  shows "controls (clearAllBlocks s) = controls s \<and>
         dragging (clearAllBlocks s) m \<and>
         getBody (physics (clearAllBlocks s)) m = None \<and>
         dragging (pointer_moves evs (clearAllBlocks s)) m \<and>
         physics (pointer_moves evs (clearAllBlocks s)) = physics (clearAllBlocks s) \<and>
         (\<forall>m'. m' \<noteq> m \<longrightarrow> mesh_heap (pointer_moves evs (clearAllBlocks s)) m' = mesh_heap s m') \<and>
         (fst (intersectPlane (cameraRay ev) (dragPlane (controls s)) (Vec3 0 0 0)) = Some p \<longrightarrow>
            position (mesh_heap (onMouseMove ev (pointer_moves evs (clearAllBlocks s))) m)
              = drag_to p (offset (controls s)))"
proof -
  let ?s1 = "clearAllBlocks s"
  let ?s2 = "pointer_moves evs ?s1"
  have k: "controls ?s1 = controls s \<and> mesh_heap ?s1 = mesh_heap s"
    by (simp add: clearAllBlocks_def fold_removeBlock_keeps)
  have d: "dragging ?s1 m" using assms(1) k by (simp add: dragging_def)
  have n: "getBody (physics ?s1) m = None"
    using assms(2) by (simp add: clearAllBlocks_def fold_removeBlock_unregisters)
  have mv: "dragging ?s2 m \<and> physics ?s2 = physics ?s1 \<and>
         dragPlane (controls ?s2) = dragPlane (controls ?s1) \<and>
         offset (controls ?s2) = offset (controls ?s1) \<and>
         (\<forall>m'. m' \<noteq> m \<longrightarrow> mesh_heap ?s2 m' = mesh_heap ?s1 m')"
    using d n by (rule pointer_moves_unregistered)
  then have n2: "getBody (physics ?s2) m = None" using n by simp
  have "position (mesh_heap (onMouseMove ev ?s2) m)
           = drag_to (snd (intersectPlane (cameraRay ev) (dragPlane (controls ?s2)) (Vec3 0 0 0)))
               (offset (controls ?s2))"
    using onMouseMove_unregistered [of ?s2 m ev] mv n2 by simp
  moreover have "snd (intersectPlane (cameraRay ev) (dragPlane (controls s)) (Vec3 0 0 0)) = p"
    if "fst (intersectPlane (cameraRay ev) (dragPlane (controls s)) (Vec3 0 0 0)) = Some p"
    using that by (auto simp: intersectPlane_def Let_def split: option.splits)
  ultimately show ?thesis using d n mv k by simp
qed

theorem removed_while_dragging_witness:
  "dragging grabbed_cube 0 \<and> blocks grabbed_cube = [0] \<and>
   fst (intersectPlane (cameraRay (pointer aside_ray [])) (dragPlane (controls grabbed_cube))
      (Vec3 0 0 0)) = Some (Vec3 2 1 3) \<and>
   getBody (physics (clearAllBlocks grabbed_cube)) 0 = None \<and>
   dragging (pointer_moves [pointer level_ray [], pointer aside_ray []]
      (clearAllBlocks grabbed_cube)) 0 \<and>
   physics (pointer_moves [pointer level_ray [], pointer aside_ray []]
      (clearAllBlocks grabbed_cube)) = physics (clearAllBlocks grabbed_cube) \<and>
   position (mesh_heap (onMouseMove (pointer aside_ray [])
      (pointer_moves [pointer level_ray [], pointer aside_ray []]
         (clearAllBlocks grabbed_cube))) 0) = Vec3 2 0.5 3"
proof -
  have a: "dragging grabbed_cube 0" by (simp add: drag_simps)
  have b: "blocks grabbed_cube = [0]" by (simp add: drag_simps)
  have c: "0 \<in> set (blocks grabbed_cube)" using b by simp
  have i: "fst (intersectPlane (cameraRay (pointer aside_ray []))
      (dragPlane (controls grabbed_cube)) (Vec3 0 0 0)) = Some (Vec3 2 1 3)"
    by (simp add: drag_simps registry_simps)
  have o: "offset (controls grabbed_cube) = Vec3 0 0.5 0"
    by (simp add: drag_simps registry_simps)
  show ?thesis
    using a b i o
      removed_while_dragging [OF a c, of "[pointer level_ray [], pointer aside_ray []]"
        "pointer aside_ray []" "Vec3 2 1 3"]
    by (simp add: drag_to_def vsub_def Let_def fl64_small)
qed

text \<open>
  C7 as stated fails: the cube is grabbed and then removed with all blocks. The interactor
  is still dragging it, and the next pointer-move takes the removed mesh from
  (2, 0.5, 0) to (2, 0.5, 3).
\<close>

theorem removed_while_dragging_counterexample:
  "dragging grabbed_cube 0 \<and>
   blocks (clearAllBlocks grabbed_cube) = [] \<and>
   getBody (physics (clearAllBlocks grabbed_cube)) 0 = None \<and>
   position (mesh_heap (clearAllBlocks grabbed_cube) 0) = Vec3 2 0.5 0 \<and>
   isDragging (controls (onMouseMove (pointer aside_ray []) (clearAllBlocks grabbed_cube))) \<and>
   selectedObject (controls (onMouseMove (pointer aside_ray []) (clearAllBlocks grabbed_cube)))
     = Some 0 \<and>
   position (mesh_heap (onMouseMove (pointer aside_ray []) (clearAllBlocks grabbed_cube)) 0)
     = Vec3 2 0.5 3"
  by (simp add: drag_simps registry_simps)

text \<open>
  C10. \<open>addDraggable\<close> is idempotent: adding a mesh that is already a candidate leaves
  the interactor unchanged, and adding it twice is adding it once. A candidate list
  without duplicates stays so under every sequence of \<open>addDraggable\<close> and
  \<open>removeDraggable\<close> calls; in particular every such sequence from a new interactor
  gives a list without duplicates.
\<close>

theorem addDraggable_idempotent:
  "(object \<in> set (draggableObjects c) \<longrightarrow> addDraggable object c = c) \<and>
   addDraggable object (addDraggable object c) = addDraggable object c \<and>
   (distinct (draggableObjects c) \<longrightarrow> distinct (draggableObjects (fold apply_call cs c))) \<and>
   distinct (draggableObjects (fold apply_call cs new_DragControls))"
proof -
  have "distinct (draggableObjects new_DragControls)"
    by (simp add: new_DragControls_def)
  then show ?thesis
    by (simp add: distinct_apply_calls) (simp add: addDraggable_def)
qed

theorem addDraggable_idempotent_witness:
  "7 \<in> set (draggableObjects (addDraggable 7 new_DragControls)) \<and>
   addDraggable 7 (addDraggable 7 new_DragControls) = addDraggable 7 new_DragControls \<and>
   distinct (draggableObjects (addDraggable 7 new_DragControls)) \<and>
   draggableObjects
     (fold apply_call [AddDraggable 3, AddDraggable 7, RemoveDraggable 3, AddDraggable 7]
        (addDraggable 7 new_DragControls)) = [7]"
  using addDraggable_idempotent [of 7 "addDraggable 7 new_DragControls"
      "[AddDraggable 3, AddDraggable 7, RemoveDraggable 3, AddDraggable 7]"]
  by (simp add: addDraggable_def removeDraggable_def new_DragControls_def)

end
